theory Spec2Isabelle
  imports Main "HOL-Library.Product_Lexorder" "HOL-Library.Multiset" "HOL-Library.Sublist"
begin

section \<open>Timestamps\<close>

text \<open>
  The timestamps of \<^verbatim>\<open>model.py\<close> are Python \<^verbatim>\<open>datetime\<close> objects. The fields of one are
  the tuple (year, month, day, hour, minute, second, microsecond). A datetime is naive
  (no \<^verbatim>\<open>tzinfo\<close>), as \<^verbatim>\<open>datetime.now()\<close> returns it, or aware. The aware datetimes
  covered are those with a fixed offset from UTC (a \<^verbatim>\<open>datetime.timezone\<close>), the kind
  \<^verbatim>\<open>datetime.fromisoformat\<close> returns for a string with an offset; the offset is in
  microseconds, positive east of UTC. A datetime object is truthy whatever its value.
\<close>

type_synonym fields = "nat \<times> nat \<times> nat \<times> nat \<times> nat \<times> nat \<times> nat"

datatype datetime = Naive fields | Aware fields int

fun is_aware :: "datetime \<Rightarrow> bool" where
  "is_aware (Naive f) = False"
| "is_aware (Aware f off) = True"

definition is_leap :: "nat \<Rightarrow> bool" where
  "is_leap y = (if y mod 400 = 0 then True else if y mod 100 = 0 then False else y mod 4 = 0)"

definition days_in_month :: "nat \<Rightarrow> nat \<Rightarrow> nat" where
  "days_in_month y m =
     (if m = 2 then (if is_leap y then 29 else 28)
      else if m = 4 \<or> m = 6 \<or> m = 9 \<or> m = 11 then 30 else 31)"

text \<open>The values a \<^verbatim>\<open>datetime\<close> object can hold (\<^verbatim>\<open>MINYEAR = 1\<close>, \<^verbatim>\<open>MAXYEAR = 9999\<close>; an
  offset is strictly between minus and plus 24 hours).\<close>

fun valid_fields :: "fields \<Rightarrow> bool" where
  "valid_fields (y, mo, d, h, mi, s, us) =
     (1 \<le> y \<and> y \<le> 9999 \<and> 1 \<le> mo \<and> mo \<le> 12 \<and> 1 \<le> d \<and> d \<le> days_in_month y mo \<and>
      h < 24 \<and> mi < 60 \<and> s < 60 \<and> us < 1000000)"

fun valid_datetime :: "datetime \<Rightarrow> bool" where
  "valid_datetime (Naive f) = valid_fields f"
| "valid_datetime (Aware f off) = (valid_fields f \<and> - 86400000000 < off \<and> off < 86400000000)"

text \<open>
  The instant of an aware datetime, in microseconds: the day number of the date
  (\<^verbatim>\<open>toordinal\<close>), the time of day, minus the offset. The difference of two aware
  datetimes is the difference of their instants.
\<close>

definition days_before_year :: "nat \<Rightarrow> int" where
  "days_before_year y =
     (let p = int y - 1 in p * 365 + p div 4 - p div 100 + p div 400)"

definition days_before_month :: "nat \<Rightarrow> nat \<Rightarrow> int" where
  "days_before_month y m = int (sum_list (map (days_in_month y) [1..<m]))"

fun instant :: "fields \<Rightarrow> int \<Rightarrow> int" where
  "instant (y, mo, d, h, mi, s, us) off =
     ((days_before_year y + days_before_month y mo + int d) * 86400 +
        int (h * 3600 + mi * 60 + s)) * 1000000 + int us - off"

section \<open>The entity: \<^verbatim>\<open>model.py\<close>\<close>

datatype ModelStatus = ACTIVE | DEPRECATED | RETIRED

text \<open>\<^verbatim>\<open>ModelStatus.value\<close>.\<close>

fun status_value :: "ModelStatus \<Rightarrow> string" where
  "status_value ACTIVE = ''active''"
| "status_value DEPRECATED = ''deprecated''"
| "status_value RETIRED = ''retired''"

text \<open>
  Exceptions are values. \<open>ValueError msg\<close> is a \<^verbatim>\<open>ValueError\<close> raised by the code of the
  repository with its message; \<open>IsoformatError s\<close> is the \<^verbatim>\<open>ValueError\<close> that
  \<^verbatim>\<open>datetime.fromisoformat\<close> raises on the string \<open>s\<close>; \<open>KeyError k\<close> is a dictionary
  subscript with the absent key \<open>k\<close>; \<open>TypeError\<close> is what the library raises, among
  others when a naive datetime is compared with an aware one.
\<close>

datatype error =
    ValueError string
  | IsoformatError string
  | KeyError string
  | TypeError
  | FileNotFoundError
  | JSONDecodeError
  | OSError

text \<open>
  The comparisons \<^verbatim>\<open><\<close> and \<^verbatim>\<open>>=\<close> of two datetimes. Two naive datetimes, and two aware
  ones with the same offset, are compared by their fields as tuples, in lexicographic
  order; two aware ones with different offsets by their instants; a naive and an aware
  one are not ordered, and the comparison raises \<^verbatim>\<open>TypeError\<close>.
\<close>

fun dt_less :: "datetime \<Rightarrow> datetime \<Rightarrow> error + bool" where
  "dt_less (Naive a) (Naive b) = Inr (a < b)"
| "dt_less (Aware a oa) (Aware b ob) =
     Inr (if oa = ob then a < b else instant a oa < instant b ob)"
| "dt_less (Naive a) (Aware b ob) = Inl TypeError"
| "dt_less (Aware a oa) (Naive b) = Inl TypeError"

fun dt_ge :: "datetime \<Rightarrow> datetime \<Rightarrow> error + bool" where
  "dt_ge (Naive a) (Naive b) = Inr (a \<ge> b)"
| "dt_ge (Aware a oa) (Aware b ob) =
     Inr (if oa = ob then a \<ge> b else instant a oa \<ge> instant b ob)"
| "dt_ge (Naive a) (Aware b ob) = Inl TypeError"
| "dt_ge (Aware a oa) (Naive b) = Inl TypeError"

record model =
  name :: string
  version :: string
  created_date :: datetime
  deprecation_date :: "datetime option"
  retirement_date :: "datetime option"

text \<open>
  \<^verbatim>\<open>Model._validate_dates\<close>: three \<^verbatim>\<open>if\<close> statements in sequence. Each condition is a
  conjunction that stops at an absent date; a comparison that raises ends the
  function with its exception, and the first condition that holds raises the
  \<^verbatim>\<open>ValueError\<close> of its statement. \<open>None\<close> is the result of a run that raises nothing.
\<close>

definition validate_dates :: "model \<Rightarrow> error option" where
  "validate_dates self =
     (case (case deprecation_date self of
              None \<Rightarrow> Inr False
            | Some d \<Rightarrow> dt_less d (created_date self)) of
        Inl e \<Rightarrow> Some e
      | Inr True \<Rightarrow> Some (ValueError ''Deprecation date cannot be before creation date'')
      | Inr False \<Rightarrow>
     (case (case (retirement_date self, deprecation_date self) of
              (Some r, Some d) \<Rightarrow> dt_less r d
            | _ \<Rightarrow> Inr False) of
        Inl e \<Rightarrow> Some e
      | Inr True \<Rightarrow> Some (ValueError ''Retirement date cannot be before deprecation date'')
      | Inr False \<Rightarrow>
     (case (case (retirement_date self, deprecation_date self) of
              (Some r, None) \<Rightarrow> dt_less r (created_date self)
            | _ \<Rightarrow> Inr False) of
        Inl e \<Rightarrow> Some e
      | Inr True \<Rightarrow> Some (ValueError ''Retirement date cannot be before creation date'')
      | Inr False \<Rightarrow> None)))"

text \<open>
  The invariants I1, I2 and I3 of the specification, in its words; \<open>\<ge>\<close> is the
  comparison of the code, and holds when it returns true.
\<close>

definition I1 :: "datetime \<Rightarrow> datetime option \<Rightarrow> bool" where
  "I1 created deprecation =
     (case deprecation of Some d \<Rightarrow> dt_ge d created = Inr True | None \<Rightarrow> True)"

definition I2 :: "datetime option \<Rightarrow> datetime option \<Rightarrow> bool" where
  "I2 deprecation retirement =
     (case (deprecation, retirement) of
        (Some d, Some r) \<Rightarrow> dt_ge r d = Inr True
      | _ \<Rightarrow> True)"

definition I3 :: "datetime \<Rightarrow> datetime option \<Rightarrow> datetime option \<Rightarrow> bool" where
  "I3 created deprecation retirement =
     (case (deprecation, retirement) of
        (None, Some r) \<Rightarrow> dt_ge r created = Inr True
      | _ \<Rightarrow> True)"

text \<open>
  The pairs of timestamps that validation compares are both naive or both aware: the
  deprecation date and the creation date; the retirement date and the deprecation
  date; without a deprecation date, the retirement date and the creation date.
\<close>

definition comparable :: "datetime \<Rightarrow> datetime \<Rightarrow> bool" where
  "comparable a b = (is_aware a = is_aware b)"

definition comparable_dates :: "datetime \<Rightarrow> datetime option \<Rightarrow> datetime option \<Rightarrow> bool" where
  "comparable_dates created deprecation retirement =
     (case (deprecation, retirement) of
        (None, None) \<Rightarrow> True
      | (Some d, None) \<Rightarrow> comparable d created
      | (None, Some r) \<Rightarrow> comparable r created
      | (Some d, Some r) \<Rightarrow> comparable d created \<and> comparable r d)"

text \<open>
  \<^verbatim>\<open>Model.__init__\<close>. The first argument is the value \<^verbatim>\<open>datetime.now()\<close> returns if it is
  called, which happens when no creation date is passed. The name and the version are
  stored as passed: the constructor does not look at them.
\<close>

definition Model_init ::
  "fields \<Rightarrow> string \<Rightarrow> string \<Rightarrow> datetime option \<Rightarrow> datetime option \<Rightarrow> datetime option
     \<Rightarrow> error + model" where
  "Model_init now n v created deprecation retirement =
     (let self = \<lparr> name = n, version = v,
                   created_date = (case created of Some c \<Rightarrow> c | None \<Rightarrow> Naive now),
                   deprecation_date = deprecation, retirement_date = retirement \<rparr>
      in case validate_dates self of Some e \<Rightarrow> Inl e | None \<Rightarrow> Inr self)"

text \<open>
  \<^verbatim>\<open>Model.get_status\<close>; \<open>now\<close> is what \<^verbatim>\<open>datetime.now()\<close> returns when no reference date
  is passed. Each of the two conditions stops at an absent date, and a comparison that
  raises ends the function with its exception.
\<close>

definition get_status :: "fields \<Rightarrow> model \<Rightarrow> datetime option \<Rightarrow> error + ModelStatus" where
  "get_status now self reference_date =
     (let ref_date = (case reference_date of Some t \<Rightarrow> t | None \<Rightarrow> Naive now) in
      case (case retirement_date self of
              None \<Rightarrow> Inr False
            | Some r \<Rightarrow> dt_ge ref_date r) of
        Inl e \<Rightarrow> Inl e
      | Inr True \<Rightarrow> Inr RETIRED
      | Inr False \<Rightarrow>
     (case (case deprecation_date self of
              None \<Rightarrow> Inr False
            | Some d \<Rightarrow> dt_ge ref_date d) of
        Inl e \<Rightarrow> Inl e
      | Inr True \<Rightarrow> Inr DEPRECATED
      | Inr False \<Rightarrow> Inr ACTIVE))"

text \<open>The three timestamps of an entity are values a \<^verbatim>\<open>datetime\<close> object can hold.\<close>

definition valid_model :: "model \<Rightarrow> bool" where
  "valid_model m =
     (valid_datetime (created_date m) \<and>
      (case deprecation_date m of Some d \<Rightarrow> valid_datetime d | None \<Rightarrow> True) \<and>
      (case retirement_date m of Some r \<Rightarrow> valid_datetime r | None \<Rightarrow> True))"

text \<open>
  The reference time \<open>t\<close> and the milestones of an entity are all naive or all aware, so
  that no comparison of \<^verbatim>\<open>get_status\<close> at \<open>t\<close> raises.
\<close>

definition status_defined :: "datetime \<Rightarrow> model \<Rightarrow> bool" where
  "status_defined t m =
     ((case retirement_date m of Some r \<Rightarrow> comparable t r | None \<Rightarrow> True) \<and>
      (case deprecation_date m of Some d \<Rightarrow> comparable t d | None \<Rightarrow> True))"

section \<open>The registry: \<^verbatim>\<open>registry.py\<close>\<close>

text \<open>\<^verbatim>\<open>ModelRegistry._models\<close>, a Python list; \<^verbatim>\<open>ModelRegistry.__init__\<close> makes it empty.\<close>

type_synonym registry = "model list"

definition registry_init :: registry where
  "registry_init = []"

text \<open>\<^verbatim>\<open>get_model\<close>: the \<^verbatim>\<open>for\<close> loop returns at the first match.\<close>

fun get_model :: "registry \<Rightarrow> string \<Rightarrow> string \<Rightarrow> model option" where
  "get_model [] n v = None"
| "get_model (m # ms) n v = (if name m = n \<and> version m = v then Some m else get_model ms n v)"

text \<open>
  \<^verbatim>\<open>add_model\<close> returns the exception raised, if any, and the list after the call. A
  \<^verbatim>\<open>Model\<close> object is truthy, so the test is whether \<^verbatim>\<open>get_model\<close> found one.
\<close>

definition add_model :: "registry \<Rightarrow> model \<Rightarrow> error option \<times> registry" where
  "add_model r m =
     (if get_model r (name m) (version m) \<noteq> None
      then (Some (ValueError (''Model '' @ name m @ '' v'' @ version m @
                              '' already exists in registry'')), r)
      else (None, r @ [m]))"

text \<open>
  \<^verbatim>\<open>remove_model\<close> returns its boolean and the list after the call. \<^verbatim>\<open>list.remove\<close>
  deletes the first element equal to the object found; \<^verbatim>\<open>Model\<close> defines no
  \<^verbatim>\<open>__eq__\<close>, so that is the object itself, at the position where \<^verbatim>\<open>get_model\<close> found
  it. \<open>remove1\<close> deletes the first element with the same field values, which is at that
  position too: an earlier element with the same fields would have matched first
  (lemma \<open>remove_model_first_match\<close> below).
\<close>

definition remove_model :: "registry \<Rightarrow> string \<Rightarrow> string \<Rightarrow> bool \<times> registry" where
  "remove_model r n v =
     (case get_model r n v of
        Some m \<Rightarrow> (True, remove1 m r)
      | None \<Rightarrow> (False, r))"

text \<open>\<^verbatim>\<open>get_all_models\<close> returns a copy of the list: the same entities in the same order.\<close>

definition get_all_models :: "registry \<Rightarrow> model list" where
  "get_all_models r = r"

text \<open>
  \<^verbatim>\<open>get_models_by_status\<close>, a list comprehension over \<^verbatim>\<open>self._models\<close>: it calls
  \<^verbatim>\<open>get_status\<close> on the entities in order, and the first call that raises ends it with
  that exception. With a reference date the clock is not read; without one every call
  of \<^verbatim>\<open>get_status\<close> reads it, and \<open>now\<close> is the value it reads.
\<close>

fun get_models_by_status ::
  "fields \<Rightarrow> registry \<Rightarrow> ModelStatus \<Rightarrow> datetime option \<Rightarrow> error + model list" where
  "get_models_by_status now [] status reference_date = Inr []"
| "get_models_by_status now (m # ms) status reference_date =
     (case get_status now m reference_date of
        Inl e \<Rightarrow> Inl e
      | Inr s \<Rightarrow>
         (case get_models_by_status now ms status reference_date of
            Inl e \<Rightarrow> Inl e
          | Inr xs \<Rightarrow> Inr (if s = status then m # xs else xs)))"

definition get_models_by_name :: "registry \<Rightarrow> string \<Rightarrow> model list" where
  "get_models_by_name r n = filter (\<lambda>m. name m = n) r"

text \<open>Invariant I4 of the specification: the keys \<open>(name, version)\<close> are pairwise distinct.\<close>

definition key :: "model \<Rightarrow> string \<times> string" where
  "key m = (name m, version m)"

definition I4 :: "registry \<Rightarrow> bool" where
  "I4 r = distinct (map key r)"

section \<open>Serialisation\<close>

subsection \<open>\<^verbatim>\<open>datetime.isoformat\<close> and a parser for what it prints\<close>

text \<open>
  \<open>zero_padded w n\<close> is \<^verbatim>\<open>'%0wd' % n\<close> for \<open>n < 10 ^ w\<close>, the case of every field of a
  datetime: \<open>w\<close> decimal digits.
\<close>

definition digit_char :: "nat \<Rightarrow> char" where
  "digit_char k = ''0123456789'' ! k"

fun zero_padded :: "nat \<Rightarrow> nat \<Rightarrow> string" where
  "zero_padded 0 n = []"
| "zero_padded (Suc w) n = zero_padded w (n div 10) @ [digit_char (n mod 10)]"

text \<open>
  \<^verbatim>\<open>datetime.isoformat()\<close>: \<^verbatim>\<open>YYYY-MM-DDTHH:MM:SS\<close>, followed by \<^verbatim>\<open>.ffffff\<close> when the
  microsecond is not 0, and for an aware datetime by its offset: a sign and \<^verbatim>\<open>HH:MM\<close>,
  followed by \<^verbatim>\<open>:SS\<close> when the offset is not a whole number of minutes, and by
  \<^verbatim>\<open>.ffffff\<close> when it is not a whole number of seconds.
\<close>

definition format_time :: "nat \<Rightarrow> nat \<Rightarrow> nat \<Rightarrow> nat \<Rightarrow> string" where
  "format_time h mi s us =
     zero_padded 2 h @ '':'' @ zero_padded 2 mi @ '':'' @ zero_padded 2 s @
     (if us = 0 then [] else ''.'' @ zero_padded 6 us)"

fun isoformat_fields :: "fields \<Rightarrow> string" where
  "isoformat_fields (y, mo, d, h, mi, s, us) =
     zero_padded 4 y @ ''-'' @ zero_padded 2 mo @ ''-'' @ zero_padded 2 d @ ''T'' @
     format_time h mi s us"

text \<open>The digits of an offset of \<open>a\<close> microseconds, after its sign.\<close>

definition offset_digits :: "nat \<Rightarrow> string" where
  "offset_digits a =
     zero_padded 2 (a div 1000000 div 3600) @ '':'' @
     zero_padded 2 (a div 1000000 div 60 mod 60) @
     (if a mod 60000000 = 0 then [] else '':'' @ zero_padded 2 (a div 1000000 mod 60)) @
     (if a mod 1000000 = 0 then [] else ''.'' @ zero_padded 6 (a mod 1000000))"

definition format_offset :: "int \<Rightarrow> string" where
  "format_offset off =
     (if off < 0 then CHR ''-'' else CHR ''+'') # offset_digits (nat \<bar>off\<bar>)"

fun isoformat :: "datetime \<Rightarrow> string" where
  "isoformat (Naive f) = isoformat_fields f"
| "isoformat (Aware f off) = isoformat_fields f @ format_offset off"

definition digit_of :: "char \<Rightarrow> nat option" where
  "digit_of c = (let k = (of_char c :: nat) in if 48 \<le> k \<and> k \<le> 57 then Some (k - 48) else None)"

fun parse_digits :: "nat \<Rightarrow> string \<Rightarrow> nat option" where
  "parse_digits a [] = Some a"
| "parse_digits a (c # cs) =
     (case digit_of c of None \<Rightarrow> None | Some k \<Rightarrow> parse_digits (10 * a + k) cs)"

text \<open>A time of day or an offset: \<^verbatim>\<open>HH:MM\<close>, \<^verbatim>\<open>HH:MM:SS\<close> or \<^verbatim>\<open>HH:MM:SS.ffffff\<close>.\<close>

definition parse_hms :: "string \<Rightarrow> (nat \<times> nat \<times> nat \<times> nat) option" where
  "parse_hms t =
     (if (length t = 5 \<or> (length t = 8 \<or> length t = 15 \<and> t ! 8 = CHR ''.'') \<and> t ! 5 = CHR '':'') \<and>
         t ! 2 = CHR '':''
      then (case (parse_digits 0 (take 2 t), parse_digits 0 (take 2 (drop 3 t)),
                  parse_digits 0 (take 2 (drop 6 t)), parse_digits 0 (drop 9 t)) of
              (Some h, Some mi, Some s, Some us) \<Rightarrow>
                 (if h < 24 \<and> mi < 60 \<and> s < 60 then Some (h, mi, s, us) else None)
            | _ \<Rightarrow> None)
      else None)"

definition is_sign :: "char \<Rightarrow> bool" where
  "is_sign c = (c = CHR ''+'' \<or> c = CHR ''-'')"

text \<open>
  What follows the date: nothing; or one separator character, a time of day and,
  from the first sign on, an offset. The result is the time of day and the offset in
  microseconds, if there is one.
\<close>

definition parse_time :: "string \<Rightarrow> ((nat \<times> nat \<times> nat \<times> nat) \<times> int option) option" where
  "parse_time rest =
     (if rest = [] then Some ((0, 0, 0, 0), None)
      else
        (let t = tl rest;
             tz = dropWhile (\<lambda>c. \<not> is_sign c) t in
         case parse_hms (takeWhile (\<lambda>c. \<not> is_sign c) t) of
           None \<Rightarrow> None
         | Some hms \<Rightarrow>
            (if tz = [] then Some (hms, None)
             else
               (case parse_hms (tl tz) of
                  None \<Rightarrow> None
                | Some (oh, om, os, ous) \<Rightarrow>
                   (let a = int ((oh * 3600 + om * 60 + os) * 1000000 + ous)
                    in Some (hms, Some (if hd tz = CHR ''-'' then - a else a)))))))"

text \<open>
  \<^verbatim>\<open>datetime.fromisoformat\<close> is library code, and the strings it accepts differ between
  Python versions. The functions below that call it take it as their argument \<open>parse\<close>
  (\<open>None\<close>: it raises \<^verbatim>\<open>ValueError\<close>). \<open>fromisoformat\<close> is one such parser. It reads the
  date \<^verbatim>\<open>YYYY-MM-DD\<close> alone, or followed by a separator, a time of day and possibly an
  offset, in the forms above: among them every string that \<^verbatim>\<open>isoformat\<close> prints, which
  the library function of every version reads back to the datetime printed. It
  returns \<open>None\<close> on every other string.
\<close>

definition fromisoformat :: "string \<Rightarrow> datetime option" where
  "fromisoformat str =
     (if 10 \<le> length str \<and> str ! 4 = CHR ''-'' \<and> str ! 7 = CHR ''-''
      then (case (parse_digits 0 (take 4 str), parse_digits 0 (take 2 (drop 5 str)),
                  parse_digits 0 (take 2 (drop 8 (take 10 str))), parse_time (drop 10 str)) of
              (Some y, Some mo, Some d, Some ((h, mi, s, us), tz)) \<Rightarrow>
                 (let dt = (case tz of None \<Rightarrow> Naive (y, mo, d, h, mi, s, us)
                                     | Some off \<Rightarrow> Aware (y, mo, d, h, mi, s, us) off)
                  in if valid_datetime dt then Some dt else None)
            | _ \<Rightarrow> None)
      else None)"

subsection \<open>\<^verbatim>\<open>Model.to_dict\<close> and \<^verbatim>\<open>Model.from_dict\<close>\<close>

text \<open>
  JSON values as \<^verbatim>\<open>json.load\<close> returns them and \<^verbatim>\<open>json.dump\<close> takes them: \<^verbatim>\<open>None\<close>,
  \<^verbatim>\<open>str\<close>, \<^verbatim>\<open>list\<close> and \<^verbatim>\<open>dict\<close> (in insertion order). The persisted format has no
  numbers and no booleans, and they are not represented.
\<close>

datatype json = JNull | JString string | JArray "json list" | JObject "(string \<times> json) list"

text \<open>Python truthiness of such a value.\<close>

fun truthy :: "json \<Rightarrow> bool" where
  "truthy JNull = False"
| "truthy (JString s) = (s \<noteq> [])"
| "truthy (JArray xs) = (xs \<noteq> [])"
| "truthy (JObject kvs) = (kvs \<noteq> [])"

text \<open>
  The dictionary of one entity, by key; \<open>None\<close> is an absent key. The values under
  \<^verbatim>\<open>"name"\<close> and \<^verbatim>\<open>"version"\<close> are strings, as \<^verbatim>\<open>Model\<close> declares them; the values
  under the date keys and \<^verbatim>\<open>"status"\<close> are any JSON value.
\<close>

record entity_dict =
  d_name :: "string option"
  d_version :: "string option"
  d_created_date :: "json option"
  d_deprecation_date :: "json option"
  d_retirement_date :: "json option"
  d_status :: "json option"

text \<open>
  \<^verbatim>\<open>to_dict\<close>; \<open>now\<close> is the clock reading of its call \<^verbatim>\<open>self.get_status()\<close>, which
  compares the milestones with that naive reading; if it raises, so does \<^verbatim>\<open>to_dict\<close>.
\<close>

definition to_dict :: "fields \<Rightarrow> model \<Rightarrow> error + entity_dict" where
  "to_dict now self =
     (case get_status now self None of
        Inl e \<Rightarrow> Inl e
      | Inr status \<Rightarrow> Inr
     \<lparr> d_name = Some (name self),
       d_version = Some (version self),
       d_created_date = Some (JString (isoformat (created_date self))),
       d_deprecation_date =
         Some (case deprecation_date self of Some d \<Rightarrow> JString (isoformat d) | None \<Rightarrow> JNull),
       d_retirement_date =
         Some (case retirement_date self of Some d \<Rightarrow> JString (isoformat d) | None \<Rightarrow> JNull),
       d_status = Some (JString (status_value status)) \<rparr>)"

text \<open>
  \<^verbatim>\<open>datetime.fromisoformat(x)\<close> for a JSON value \<open>x\<close>: \<^verbatim>\<open>TypeError\<close> unless \<open>x\<close> is a
  string.
\<close>

fun fromisoformat_value :: "(string \<Rightarrow> datetime option) \<Rightarrow> json \<Rightarrow> error + datetime" where
  "fromisoformat_value parse (JString s) =
     (case parse s of None \<Rightarrow> Inl (IsoformatError s) | Some t \<Rightarrow> Inr t)"
| "fromisoformat_value parse x = Inl TypeError"

text \<open>
  \<^verbatim>\<open>datetime.fromisoformat(data[k]) if data.get(k) else None\<close>, for the value \<open>x\<close> of
  \<^verbatim>\<open>data.get(k)\<close>.
\<close>

definition optional_date ::
  "(string \<Rightarrow> datetime option) \<Rightarrow> json option \<Rightarrow> error + datetime option" where
  "optional_date parse x =
     (case x of
        None \<Rightarrow> Inr None
      | Some j \<Rightarrow>
         (if truthy j
          then (case fromisoformat_value parse j of Inl e \<Rightarrow> Inl e | Inr t \<Rightarrow> Inr (Some t))
          else Inr None))"

text \<open>
  \<^verbatim>\<open>from_dict\<close>: the arguments of \<^verbatim>\<open>cls(...)\<close> are evaluated from left to right, then the
  constructor runs. The key \<^verbatim>\<open>"status"\<close> is not read.
\<close>

definition from_dict ::
  "fields \<Rightarrow> (string \<Rightarrow> datetime option) \<Rightarrow> entity_dict \<Rightarrow> error + model" where
  "from_dict now parse data =
     (case d_name data of None \<Rightarrow> Inl (KeyError ''name'') | Some n \<Rightarrow>
     (case d_version data of None \<Rightarrow> Inl (KeyError ''version'') | Some v \<Rightarrow>
     (case d_created_date data of None \<Rightarrow> Inl (KeyError ''created_date'') | Some c \<Rightarrow>
     (case fromisoformat_value parse c of Inl e \<Rightarrow> Inl e | Inr created \<Rightarrow>
     (case optional_date parse (d_deprecation_date data) of Inl e \<Rightarrow> Inl e | Inr deprecation \<Rightarrow>
     (case optional_date parse (d_retirement_date data) of Inl e \<Rightarrow> Inl e | Inr retirement \<Rightarrow>
        Model_init now n v (Some created) deprecation retirement))))))"

subsection \<open>\<^verbatim>\<open>load_from_file\<close>\<close>

text \<open>
  What \<^verbatim>\<open>open(filepath, 'r')\<close> and \<^verbatim>\<open>json.load(f)\<close> give: no such file, text that is not
  JSON, or the parsed top-level dictionary, represented by the value of
  \<^verbatim>\<open>data.get("models")\<close>: \<open>None\<close> when the key is absent, otherwise the list of the
  entities' dictionaries. The sources covered are those of the persisted format: a
  top-level dictionary whose \<^verbatim>\<open>"models"\<close>, when present, is a list of dictionaries.
\<close>

datatype source = Missing | Malformed | Parsed "entity_dict list option"

text \<open>The list comprehension: the first \<^verbatim>\<open>from_dict\<close> that raises ends it.\<close>

fun from_dicts ::
  "fields \<Rightarrow> (string \<Rightarrow> datetime option) \<Rightarrow> entity_dict list \<Rightarrow> error + model list" where
  "from_dicts now parse [] = Inr []"
| "from_dicts now parse (d # ds) =
     (case from_dict now parse d of
        Inl e \<Rightarrow> Inl e
      | Inr m \<Rightarrow> (case from_dicts now parse ds of Inl e \<Rightarrow> Inl e | Inr ms \<Rightarrow> Inr (m # ms)))"

text \<open>
  \<^verbatim>\<open>load_from_file\<close> returns the exception raised, if any, and the list after the call.
  \<^verbatim>\<open>data.get("models", [])\<close> is the empty list when the key is absent. The assignment to
  \<^verbatim>\<open>self._models\<close> runs once the comprehension has produced its list.
\<close>

definition load_from_file ::
  "fields \<Rightarrow> (string \<Rightarrow> datetime option) \<Rightarrow> source \<Rightarrow> registry \<Rightarrow> error option \<times> registry" where
  "load_from_file now parse src r =
     (case src of
        Missing \<Rightarrow> (Some FileNotFoundError, r)
      | Malformed \<Rightarrow> (Some JSONDecodeError, r)
      | Parsed data \<Rightarrow>
         (case from_dicts now parse (case data of None \<Rightarrow> [] | Some ds \<Rightarrow> ds) of
            Inl e \<Rightarrow> (Some e, r)
          | Inr ms \<Rightarrow> (None, ms)))"

subsection \<open>\<^verbatim>\<open>save_to_file\<close>\<close>

text \<open>
  \<^verbatim>\<open>json.dump(data, f, indent=2)\<close> writes the text below. A string is written between
  double quotes with \<^verbatim>\<open>ensure_ascii\<close> escapes: a backslash before a double quote and before a backslash,
  the short escapes of backspace, form feed, newline, carriage return and tab, and
  \<^verbatim>\<open>\u00xx\<close> for every other character outside the range from space to \<^verbatim>\<open>~\<close>. A
  character of a \<open>string\<close> stands for the code point of its number.
\<close>

definition hex_digit :: "nat \<Rightarrow> char" where
  "hex_digit k = ''0123456789abcdef'' ! k"

definition escape_char :: "char \<Rightarrow> string" where
  "escape_char c =
     (let k = (of_char c :: nat) in
      if k = 34 then [CHR 0x5C, CHR 0x22]
      else if k = 92 then [CHR 0x5C, CHR 0x5C]
      else if k = 8 then [CHR 0x5C, CHR ''b'']
      else if k = 12 then [CHR 0x5C, CHR ''f'']
      else if k = 10 then [CHR 0x5C, CHR ''n'']
      else if k = 13 then [CHR 0x5C, CHR ''r'']
      else if k = 9 then [CHR 0x5C, CHR ''t'']
      else if 32 \<le> k \<and> k \<le> 126 then [c]
      else [CHR 0x5C, CHR ''u'', CHR ''0'', CHR ''0'', hex_digit (k div 16), hex_digit (k mod 16)])"

definition encode_string :: "string \<Rightarrow> string" where
  "encode_string s = [CHR 0x22] @ concat (map escape_char s) @ [CHR 0x22]"

text \<open>A line break followed by the indentation of nesting level \<open>l\<close>.\<close>

definition newline_indent :: "nat \<Rightarrow> string" where
  "newline_indent l = CHR 0x0A # replicate (2 * l) CHR '' ''"

fun dumps :: "nat \<Rightarrow> json \<Rightarrow> string"
  and dumps_items :: "nat \<Rightarrow> json list \<Rightarrow> string"
  and dumps_members :: "nat \<Rightarrow> (string \<times> json) list \<Rightarrow> string" where
  "dumps l JNull = ''null''"
| "dumps l (JString s) = encode_string s"
| "dumps l (JArray xs) =
     (if xs = [] then ''[]''
      else ''['' @ newline_indent (l + 1) @ dumps_items (l + 1) xs @ newline_indent l @ '']'')"
| "dumps l (JObject kvs) =
     (if kvs = [] then ''{}''
      else ''{'' @ newline_indent (l + 1) @ dumps_members (l + 1) kvs @ newline_indent l @ ''}'')"
| "dumps_items l [] = []"
| "dumps_items l [x] = dumps l x"
| "dumps_items l (x # y # ys) = dumps l x @ '','' @ newline_indent l @ dumps_items l (y # ys)"
| "dumps_members l [] = []"
| "dumps_members l [(k, x)] = encode_string k @ '': '' @ dumps l x"
| "dumps_members l ((k, x) # y # ys) =
     encode_string k @ '': '' @ dumps l x @ '','' @ newline_indent l @ dumps_members l (y # ys)"

text \<open>The dictionary of an entity as a JSON object: its keys in the order of \<^verbatim>\<open>to_dict\<close>.\<close>

definition dict_json :: "entity_dict \<Rightarrow> json" where
  "dict_json d =
     JObject
       ((case d_name d of Some n \<Rightarrow> [(''name'', JString n)] | None \<Rightarrow> []) @
        (case d_version d of Some v \<Rightarrow> [(''version'', JString v)] | None \<Rightarrow> []) @
        (case d_created_date d of Some x \<Rightarrow> [(''created_date'', x)] | None \<Rightarrow> []) @
        (case d_deprecation_date d of Some x \<Rightarrow> [(''deprecation_date'', x)] | None \<Rightarrow> []) @
        (case d_retirement_date d of Some x \<Rightarrow> [(''retirement_date'', x)] | None \<Rightarrow> []) @
        (case d_status d of Some x \<Rightarrow> [(''status'', x)] | None \<Rightarrow> []))"

text \<open>
  \<^verbatim>\<open>[model.to_dict() for model in self._models]\<close>: the call for the model at index
  \<open>i\<close> reads the clock once, and \<open>clock i\<close> is what it reads; the first call that
  raises ends the comprehension with that exception.
\<close>

fun to_dicts_from :: "(nat \<Rightarrow> fields) \<Rightarrow> nat \<Rightarrow> model list \<Rightarrow> error + entity_dict list" where
  "to_dicts_from clock i [] = Inr []"
| "to_dicts_from clock i (m # ms) =
     (case to_dict (clock i) m of
        Inl e \<Rightarrow> Inl e
      | Inr d \<Rightarrow>
         (case to_dicts_from clock (Suc i) ms of Inl e \<Rightarrow> Inl e | Inr ds \<Rightarrow> Inr (d # ds)))"

definition to_dicts :: "(nat \<Rightarrow> fields) \<Rightarrow> registry \<Rightarrow> error + entity_dict list" where
  "to_dicts clock r = to_dicts_from clock 0 r"

text \<open>The text of \<^verbatim>\<open>data\<close>, when building \<^verbatim>\<open>data\<close> raises nothing.\<close>

definition serialized :: "(nat \<Rightarrow> fields) \<Rightarrow> registry \<Rightarrow> error + string" where
  "serialized clock r =
     (case to_dicts clock r of
        Inl e \<Rightarrow> Inl e
      | Inr ds \<Rightarrow> Inr (dumps 0 (JObject [(''models'', JArray (map dict_json ds))])))"

text \<open>
  The files, by path. \<^verbatim>\<open>save_to_file\<close> builds \<^verbatim>\<open>data\<close> (an exception of \<^verbatim>\<open>to_dict\<close>
  ends the call there, the files untouched), creates the parent directories,
  opens the destination with mode \<^verbatim>\<open>'w'\<close>, which empties it, and lets \<^verbatim>\<open>json.dump\<close>
  write the text through the file object. What the storage does is the argument
  \<open>fault\<close>: it works; or creating the directories or opening the file raises
  \<^verbatim>\<open>OSError\<close>, the destination untouched; or a write raises \<^verbatim>\<open>OSError\<close> once \<open>k\<close>
  characters of the text have reached the file. The result is the exception raised,
  if any, and the files after the call.
\<close>

type_synonym files = "string \<rightharpoonup> string"

datatype fault = NoFault | MkdirFails | OpenFails | WriteFails nat

definition save_to_file ::
  "fault \<Rightarrow> (nat \<Rightarrow> fields) \<Rightarrow> files \<Rightarrow> string \<Rightarrow> registry \<Rightarrow> error option \<times> files" where
  "save_to_file flt clock fs filepath r =
     (case serialized clock r of
        Inl e \<Rightarrow> (Some e, fs)
      | Inr text \<Rightarrow>
         (case flt of
            MkdirFails \<Rightarrow> (Some OSError, fs)
          | OpenFails \<Rightarrow> (Some OSError, fs)
          | WriteFails k \<Rightarrow> (Some OSError, fs(filepath \<mapsto> take k text))
          | NoFault \<Rightarrow> (None, fs(filepath \<mapsto> text))))"

subsection \<open>Sequences of operations\<close>

datatype op = Add model | Remove string string | Load source

definition step ::
  "fields \<Rightarrow> (string \<Rightarrow> datetime option) \<Rightarrow> registry \<Rightarrow> op \<Rightarrow> registry" where
  "step now parse r x =
     (case x of
        Add m \<Rightarrow> snd (add_model r m)
      | Remove n v \<Rightarrow> snd (remove_model r n v)
      | Load src \<Rightarrow> snd (load_from_file now parse src r))"

definition run ::
  "fields \<Rightarrow> (string \<Rightarrow> datetime option) \<Rightarrow> op list \<Rightarrow> registry" where
  "run now parse xs = foldl (step now parse) registry_init xs"

text \<open>The keys of the dictionaries of a source are pairwise distinct.\<close>

fun distinct_keys :: "source \<Rightarrow> bool" where
  "distinct_keys (Parsed (Some ds)) = distinct (map (\<lambda>d. (d_name d, d_version d)) ds)"
| "distinct_keys src = True"

fun op_distinct_keys :: "op \<Rightarrow> bool" where
  "op_distinct_keys (Load src) = distinct_keys src"
| "op_distinct_keys x = True"

section \<open>Example data\<close>

text \<open>
  The entities and dictionaries at which the theorems below are instantiated: the names
  and versions of the test suite, with fixed dates.
\<close>

definition gpt4 :: model where
  "gpt4 = \<lparr> name = ''GPT-4'', version = ''1.0'',
            created_date = Naive (2024, 1, 1, 0, 0, 0, 0),
            deprecation_date = None, retirement_date = None \<rparr>"

definition gpt3 :: model where
  "gpt3 = \<lparr> name = ''GPT-3'', version = ''1.0'',
            created_date = Naive (2023, 1, 1, 0, 0, 0, 0),
            deprecation_date = Some (Naive (2024, 1, 31, 0, 0, 0, 0)),
            retirement_date = Some (Naive (2024, 12, 31, 12, 30, 0, 500)) \<rparr>"

text \<open>An entity deprecated and retired at the same instant, as in the test suite.\<close>

definition gpt2 :: model where
  "gpt2 = \<lparr> name = ''GPT-2'', version = ''1.0'',
            created_date = Naive (2023, 1, 1, 0, 0, 0, 0),
            deprecation_date = Some (Naive (2024, 1, 31, 0, 0, 0, 0)),
            retirement_date = Some (Naive (2024, 1, 31, 0, 0, 0, 0)) \<rparr>"

text \<open>A second entity with the key of \<open>gpt4\<close> and another creation date.\<close>

definition gpt4_later :: model where
  "gpt4_later = \<lparr> name = ''GPT-4'', version = ''1.0'',
            created_date = Naive (2024, 3, 1, 0, 0, 0, 0),
            deprecation_date = None, retirement_date = None \<rparr>"

text \<open>Entities with aware timestamps: one at UTC with a deprecation date, one at
  \<^verbatim>\<open>+05:30\<close> without milestones.\<close>

definition gpt4_utc :: model where
  "gpt4_utc = \<lparr> name = ''GPT-4'', version = ''utc'',
            created_date = Aware (2024, 1, 1, 0, 0, 0, 0) 0,
            deprecation_date = Some (Aware (2024, 1, 31, 0, 0, 0, 0) 0),
            retirement_date = None \<rparr>"

definition gpt4_ist :: model where
  "gpt4_ist = \<lparr> name = ''GPT-4'', version = ''ist'',
            created_date = Aware (2024, 1, 1, 9, 15, 0, 250000) 19800000000,
            deprecation_date = None, retirement_date = None \<rparr>"

definition gpt4_dict :: entity_dict where
  "gpt4_dict = \<lparr> d_name = Some ''GPT-4'', d_version = Some ''1.0'',
       d_created_date = Some (JString ''2024-01-01T00:00:00''),
       d_deprecation_date = Some JNull, d_retirement_date = Some JNull,
       d_status = Some (JString ''active'') \<rparr>"

definition gpt4_later_dict :: entity_dict where
  "gpt4_later_dict = \<lparr> d_name = Some ''GPT-4'', d_version = Some ''1.0'',
       d_created_date = Some (JString ''2024-03-01T00:00:00''),
       d_deprecation_date = Some JNull, d_retirement_date = Some JNull,
       d_status = Some (JString ''active'') \<rparr>"

definition gpt3_dict :: entity_dict where
  "gpt3_dict = \<lparr> d_name = Some ''GPT-3'', d_version = Some ''1.0'',
       d_created_date = Some (JString ''2023-01-01T00:00:00''),
       d_deprecation_date = Some (JString ''2024-01-31T00:00:00''),
       d_retirement_date = Some (JString ''2024-12-31T12:30:00.000500''),
       d_status = Some (JString ''deprecated'') \<rparr>"

definition gpt4_ist_dict :: entity_dict where
  "gpt4_ist_dict = \<lparr> d_name = Some ''GPT-4'', d_version = Some ''ist'',
       d_created_date = Some (JString ''2024-01-01T09:15:00.250000+05:30''),
       d_deprecation_date = Some JNull, d_retirement_date = Some JNull,
       d_status = Some (JString ''active'') \<rparr>"

text \<open>Dictionaries that do not deserialise: a deprecation date before the creation date,
  a creation date that is no timestamp, and no name.\<close>

definition misordered_dict :: entity_dict where
  "misordered_dict = \<lparr> d_name = Some ''GPT-2'', d_version = Some ''1.0'',
       d_created_date = Some (JString ''2024-01-01T00:00:00''),
       d_deprecation_date = Some (JString ''2023-12-31T00:00:00''),
       d_retirement_date = Some JNull,
       d_status = Some (JString ''active'') \<rparr>"

definition unparsable_dict :: entity_dict where
  "unparsable_dict = \<lparr> d_name = Some ''GPT-2'', d_version = Some ''1.0'',
       d_created_date = Some (JString ''yesterday''),
       d_deprecation_date = Some JNull, d_retirement_date = Some JNull,
       d_status = Some (JString ''active'') \<rparr>"

definition nameless_dict :: entity_dict where
  "nameless_dict = \<lparr> d_name = None, d_version = Some ''1.0'',
       d_created_date = Some (JString ''2024-01-01T00:00:00''),
       d_deprecation_date = Some JNull, d_retirement_date = Some JNull,
       d_status = Some (JString ''active'') \<rparr>"

text \<open>The clock reading used in the examples, a clock that always reads it, and a store
  with no file.\<close>

definition june :: fields where
  "june = (2024, 6, 1, 0, 0, 0, 0)"

definition fixed_clock :: "fields \<Rightarrow> nat \<Rightarrow> fields" where
  "fixed_clock t i = t"

definition no_files :: files where
  "no_files = Map.empty"

section \<open>The examples evaluated\<close>

lemma zero_padded_2: "zero_padded 2 n = [digit_char (n div 10 mod 10), digit_char (n mod 10)]"
  by (simp add: numeral_2_eq_2)

lemma zero_padded_4:
  "zero_padded 4 n = [digit_char (n div 10 div 10 div 10 mod 10), digit_char (n div 10 div 10 mod 10),
                      digit_char (n div 10 mod 10), digit_char (n mod 10)]"
proof -
  have h: "(4::nat) = Suc (Suc (Suc (Suc 0)))" by simp
  show ?thesis unfolding h by simp
qed

lemma zero_padded_6:
  "zero_padded 6 n = [digit_char (n div 10 div 10 div 10 div 10 div 10 mod 10),
                      digit_char (n div 10 div 10 div 10 div 10 mod 10),
                      digit_char (n div 10 div 10 div 10 mod 10), digit_char (n div 10 div 10 mod 10),
                      digit_char (n div 10 mod 10), digit_char (n mod 10)]"
proof -
  have h: "(6::nat) = Suc (Suc (Suc (Suc (Suc (Suc 0)))))" by simp
  show ?thesis unfolding h by simp
qed

lemma fromisoformat_examples:
  "fromisoformat ''2024-01-01T00:00:00'' = Some (Naive (2024, 1, 1, 0, 0, 0, 0))"
  "fromisoformat ''2024-03-01T00:00:00'' = Some (Naive (2024, 3, 1, 0, 0, 0, 0))"
  "fromisoformat ''2023-01-01T00:00:00'' = Some (Naive (2023, 1, 1, 0, 0, 0, 0))"
  "fromisoformat ''2024-01-31T00:00:00'' = Some (Naive (2024, 1, 31, 0, 0, 0, 0))"
  "fromisoformat ''2023-12-31T00:00:00'' = Some (Naive (2023, 12, 31, 0, 0, 0, 0))"
  "fromisoformat ''2024-12-31T12:30:00.000500'' = Some (Naive (2024, 12, 31, 12, 30, 0, 500))"
  "fromisoformat ''yesterday'' = None"
  by (simp_all add: fromisoformat_def parse_time_def parse_hms_def is_sign_def digit_of_def
        days_in_month_def is_leap_def)

lemma from_dict_examples:
  "from_dict now fromisoformat gpt4_dict = Inr gpt4"
  "from_dict now fromisoformat gpt4_later_dict = Inr gpt4_later"
  "from_dict now fromisoformat gpt3_dict = Inr gpt3"
  "from_dict now fromisoformat misordered_dict =
     Inl (ValueError ''Deprecation date cannot be before creation date'')"
  "from_dict now fromisoformat unparsable_dict = Inl (IsoformatError ''yesterday'')"
  "from_dict now fromisoformat nameless_dict = Inl (KeyError ''name'')"
  by (simp_all add: from_dict_def optional_date_def fromisoformat_examples Model_init_def
        validate_dates_def gpt4_dict_def gpt4_def gpt4_later_dict_def gpt4_later_def
        gpt3_dict_def gpt3_def misordered_dict_def unparsable_dict_def nameless_dict_def)

lemma to_dict_examples:
  "to_dict june gpt3 = Inr gpt3_dict"
  "to_dict june gpt4_ist = Inr gpt4_ist_dict"
  "to_dict june gpt4_utc = Inl TypeError"
  by (simp_all add: to_dict_def gpt3_def gpt3_dict_def gpt4_ist_def gpt4_ist_dict_def gpt4_utc_def
        get_status_def june_def digit_char_def format_time_def format_offset_def
        offset_digits_def zero_padded_2 zero_padded_4 zero_padded_6)

section \<open>Properties of the comparisons\<close>

text \<open>A comparison raises exactly when one datetime is naive and the other aware, and
  \<^verbatim>\<open>>=\<close> is the negation of \<^verbatim>\<open><\<close> otherwise.\<close>

lemma dt_less_Inl: "dt_less a b = Inl e \<longleftrightarrow> \<not> comparable a b \<and> e = TypeError"
  by (cases a; cases b) (auto simp: comparable_def)

lemma dt_ge_Inl: "dt_ge a b = Inl e \<longleftrightarrow> \<not> comparable a b \<and> e = TypeError"
  by (cases a; cases b) (auto simp: comparable_def)

lemma dt_ge_Inr_comparable: "dt_ge a b = Inr x \<Longrightarrow> comparable a b"
  by (cases a; cases b) (auto simp: comparable_def)

lemma dt_ge_not_less: "dt_ge a b = Inr x \<longleftrightarrow> dt_less a b = Inr (\<not> x)"
  by (cases a; cases b) (auto simp: not_less)

lemma dt_ge_refl: "dt_ge a a = Inr True"
  by (cases a) simp_all

lemma dt_less_cases:
  "dt_less a b =
     (if \<not> comparable a b then Inl TypeError else Inr (dt_ge a b \<noteq> Inr True))"
  by (cases a; cases b) (auto simp: comparable_def)

lemma dt_ge_cases:
  "dt_ge a b = (if \<not> comparable a b then Inl TypeError else Inr (dt_ge a b = Inr True))"
  by (cases a; cases b) (auto simp: comparable_def)

section \<open>Properties of the entity\<close>

subsection \<open>Status\<close>

lemma get_status_cases:
  "get_status now self (Some t) =
     (if \<exists>r. retirement_date self = Some r \<and> \<not> comparable t r then Inl TypeError
      else if \<exists>r. retirement_date self = Some r \<and> dt_ge t r = Inr True then Inr RETIRED
      else if \<exists>d. deprecation_date self = Some d \<and> \<not> comparable t d then Inl TypeError
      else if \<exists>d. deprecation_date self = Some d \<and> dt_ge t d = Inr True then Inr DEPRECATED
      else Inr ACTIVE)"
  by (auto simp: get_status_def dt_ge_Inl dest: dt_ge_Inr_comparable
           split: option.splits sum.splits bool.splits)

lemma get_status_None: "get_status now self None = get_status now self (Some (Naive now))"
  by (simp add: get_status_def)

subsection \<open>Validation\<close>

lemma invariants_absent:
  "I1 c None" "I2 None r" "I2 d None" "I3 c (Some x) r" "I3 c d None"
  by (simp_all add: I1_def I2_def I3_def split: option.splits)

lemma validate_dates_cases:
  "validate_dates self =
     (if \<exists>d. deprecation_date self = Some d \<and> \<not> comparable d (created_date self)
      then Some TypeError
      else if \<not> I1 (created_date self) (deprecation_date self)
      then Some (ValueError ''Deprecation date cannot be before creation date'')
      else if \<exists>d r. deprecation_date self = Some d \<and> retirement_date self = Some r \<and>
                      \<not> comparable r d
      then Some TypeError
      else if \<not> I2 (deprecation_date self) (retirement_date self)
      then Some (ValueError ''Retirement date cannot be before deprecation date'')
      else if deprecation_date self = None \<and>
              (\<exists>r. retirement_date self = Some r \<and> \<not> comparable r (created_date self))
      then Some TypeError
      else if \<not> I3 (created_date self) (deprecation_date self) (retirement_date self)
      then Some (ValueError ''Retirement date cannot be before creation date'')
      else None)"
  by (cases "deprecation_date self"; cases "retirement_date self")
     (simp_all add: validate_dates_def I1_def I2_def I3_def dt_less_cases)

lemma validate_dates_comparable:
  "validate_dates self = None \<Longrightarrow>
     comparable_dates (created_date self) (deprecation_date self) (retirement_date self) \<and>
     I1 (created_date self) (deprecation_date self) \<and>
     I2 (deprecation_date self) (retirement_date self) \<and>
     I3 (created_date self) (deprecation_date self) (retirement_date self)"
  by (cases "deprecation_date self"; cases "retirement_date self")
     (auto simp: validate_dates_cases comparable_dates_def split: if_splits)

subsection \<open>Status at a reference time\<close>

text \<open>
  Claim C4, as amended. With an explicit reference time \<open>t\<close>, the status goes through
  the retirement date and then the deprecation date: a date that is present and is
  naive where \<open>t\<close> is aware, or the reverse, makes the comparison raise \<^verbatim>\<open>TypeError\<close>;
  a date that is present and at or before \<open>t\<close> gives Retired, respectively
  Deprecated; otherwise the status is Active. Hence, when \<open>t\<close> and the milestones are
  all naive or all aware, the status is Retired if a retirement date is present and
  \<open>t\<close> is at or after it, otherwise Deprecated if a deprecation date is present and \<open>t\<close>
  is at or after it, otherwise Active. The comparisons are inclusive: at the
  retirement instant itself the status is Retired, and at the deprecation instant itself
  the status of an entity that passed validation is Deprecated, unless the retirement
  date is already reached at that instant, in which case it is Retired; it is never
  Active.
\<close>

theorem status_decision_order:
  "get_status now self (Some t) =
     (if \<exists>r. retirement_date self = Some r \<and> \<not> comparable t r then Inl TypeError
      else if \<exists>r. retirement_date self = Some r \<and> dt_ge t r = Inr True then Inr RETIRED
      else if \<exists>d. deprecation_date self = Some d \<and> \<not> comparable t d then Inl TypeError
      else if \<exists>d. deprecation_date self = Some d \<and> dt_ge t d = Inr True then Inr DEPRECATED
      else Inr ACTIVE) \<and>
   ((\<forall>r. retirement_date self = Some r \<longrightarrow> comparable t r) \<and>
    (\<forall>d. deprecation_date self = Some d \<longrightarrow> comparable t d) \<longrightarrow>
      get_status now self (Some t) =
        Inr (if \<exists>r. retirement_date self = Some r \<and> dt_ge t r = Inr True then RETIRED
             else if \<exists>d. deprecation_date self = Some d \<and> dt_ge t d = Inr True then DEPRECATED
             else ACTIVE)) \<and>
   (retirement_date self = Some r \<longrightarrow> get_status now self (Some r) = Inr RETIRED) \<and>
   (deprecation_date self = Some d \<and> validate_dates self = None \<longrightarrow>
      get_status now self (Some d) =
        Inr (if \<exists>r. retirement_date self = Some r \<and> dt_ge d r = Inr True then RETIRED
             else DEPRECATED))"
proof (intro conjI impI)
  show "get_status now self (Some t) =
     (if \<exists>r. retirement_date self = Some r \<and> \<not> comparable t r then Inl TypeError
      else if \<exists>r. retirement_date self = Some r \<and> dt_ge t r = Inr True then Inr RETIRED
      else if \<exists>d. deprecation_date self = Some d \<and> \<not> comparable t d then Inl TypeError
      else if \<exists>d. deprecation_date self = Some d \<and> dt_ge t d = Inr True then Inr DEPRECATED
      else Inr ACTIVE)"
    by (rule get_status_cases)
next
  assume "(\<forall>r. retirement_date self = Some r \<longrightarrow> comparable t r) \<and>
    (\<forall>d. deprecation_date self = Some d \<longrightarrow> comparable t d)"
  then show "get_status now self (Some t) =
        Inr (if \<exists>r. retirement_date self = Some r \<and> dt_ge t r = Inr True then RETIRED
             else if \<exists>d. deprecation_date self = Some d \<and> dt_ge t d = Inr True then DEPRECATED
             else ACTIVE)"
    by (auto simp: get_status_cases)
next
  assume "retirement_date self = Some r"
  then show "get_status now self (Some r) = Inr RETIRED"
    by (simp add: get_status_cases dt_ge_refl comparable_def)
next
  assume a: "deprecation_date self = Some d \<and> validate_dates self = None"
  then have c: "comparable_dates (created_date self) (Some d) (retirement_date self)"
    using validate_dates_comparable [of self] by simp
  show "get_status now self (Some d) =
        Inr (if \<exists>r. retirement_date self = Some r \<and> dt_ge d r = Inr True then RETIRED
             else DEPRECATED)"
  proof (cases "retirement_date self")
    case None
    with a show ?thesis
      by (simp add: get_status_cases dt_ge_refl comparable_def)
  next
    case (Some r)
    with c have "comparable d r"
      by (auto simp: comparable_dates_def comparable_def)
    with a Some show ?thesis
      by (simp add: get_status_cases dt_ge_refl) (simp add: comparable_def)
  qed
qed

theorem status_decision_order_witness:
  "get_status june gpt3 (Some (Naive (2024, 1, 31, 0, 0, 0, 0))) = Inr DEPRECATED \<and>
   get_status june gpt3 (Some (Naive (2024, 12, 31, 12, 30, 0, 500))) = Inr RETIRED \<and>
   get_status june gpt3 (Some (Naive (2024, 1, 30, 23, 59, 59, 999999))) = Inr ACTIVE \<and>
   get_status june gpt3 (Some (Aware (2024, 1, 31, 0, 0, 0, 0) 0)) = Inl TypeError"
proof -
  have d: "deprecation_date gpt3 = Some (Naive (2024, 1, 31, 0, 0, 0, 0))"
    and r: "retirement_date gpt3 = Some (Naive (2024, 12, 31, 12, 30, 0, 500))"
    by (simp_all add: gpt3_def)
  have v: "validate_dates gpt3 = None"
    by (simp add: validate_dates_def gpt3_def)
  have c: "(\<forall>r. retirement_date gpt3 = Some r \<longrightarrow>
              comparable (Naive (2024, 1, 30, 23, 59, 59, 999999)) r) \<and>
           (\<forall>d. deprecation_date gpt3 = Some d \<longrightarrow>
              comparable (Naive (2024, 1, 30, 23, 59, 59, 999999)) d)"
    by (simp add: d r comparable_def)
  note th = status_decision_order [of june gpt3]
  have 1: "get_status june gpt3 (Some (Naive (2024, 1, 31, 0, 0, 0, 0))) = Inr DEPRECATED"
    using th [of _ _ "Naive (2024, 1, 31, 0, 0, 0, 0)", THEN conjunct2, THEN conjunct2,
              THEN conjunct2, THEN mp, OF conjI [OF d v]]
    by (simp add: r)
  have 2: "get_status june gpt3 (Some (Naive (2024, 12, 31, 12, 30, 0, 500))) = Inr RETIRED"
    using th [of _ "Naive (2024, 12, 31, 12, 30, 0, 500)", THEN conjunct2, THEN conjunct2,
              THEN conjunct1, THEN mp, OF r] .
  have 3: "get_status june gpt3 (Some (Naive (2024, 1, 30, 23, 59, 59, 999999))) = Inr ACTIVE"
    using th [of "Naive (2024, 1, 30, 23, 59, 59, 999999)", THEN conjunct2, THEN conjunct1,
              THEN mp, OF c]
    by (simp add: d r)
  have 4: "get_status june gpt3 (Some (Aware (2024, 1, 31, 0, 0, 0, 0) 0)) = Inl TypeError"
    using th [of "Aware (2024, 1, 31, 0, 0, 0, 0) 0", THEN conjunct1]
    by (simp add: r comparable_def)
  from 1 2 3 4 show ?thesis by (intro conjI)
qed

text \<open>
  Claim C4 as stated fails: an entity deprecated and retired at the same instant passes
  validation, and its status at its deprecation instant is Retired, not Deprecated; and
  for an aware reference time against its naive milestones the status is not computed,
  \<^verbatim>\<open>TypeError\<close> is raised.
\<close>

theorem retired_at_deprecation_counterexample:
  "Model_init june ''GPT-2'' ''1.0'' (Some (Naive (2023, 1, 1, 0, 0, 0, 0)))
     (Some (Naive (2024, 1, 31, 0, 0, 0, 0))) (Some (Naive (2024, 1, 31, 0, 0, 0, 0))) = Inr gpt2 \<and>
   deprecation_date gpt2 = Some (Naive (2024, 1, 31, 0, 0, 0, 0)) \<and>
   get_status june gpt2 (Some (Naive (2024, 1, 31, 0, 0, 0, 0))) = Inr RETIRED \<and>
   get_status june gpt2 (Some (Aware (2024, 1, 31, 0, 0, 0, 0) 0)) = Inl TypeError"
  by (simp add: Model_init_def validate_dates_def gpt2_def get_status_def)

subsection \<open>Construction\<close>

text \<open>
  Claim C5, as amended. Whatever the creation date \<open>c\<close> (the one passed, or the clock
  reading when none is passed) and the optional deprecation and retirement dates,
  construction succeeds if and only if I1, I2 and I3 hold. The checks run in the order
  I1, I2, I3: when the dates compared are all naive or all aware, a failing
  construction raises the error of the first violated invariant, and the three errors
  are distinct; when a check compares a naive date with an aware one, construction
  fails at that check with \<^verbatim>\<open>TypeError\<close> instead.
\<close>

theorem construction_validates_in_order:
  "Model_init now n v created deprecation retirement =
     (let c = (case created of Some c \<Rightarrow> c | None \<Rightarrow> Naive now) in
      if \<exists>d. deprecation = Some d \<and> \<not> comparable d c then Inl TypeError
      else if \<not> I1 c deprecation
      then Inl (ValueError ''Deprecation date cannot be before creation date'')
      else if \<exists>d r. deprecation = Some d \<and> retirement = Some r \<and> \<not> comparable r d
      then Inl TypeError
      else if \<not> I2 deprecation retirement
      then Inl (ValueError ''Retirement date cannot be before deprecation date'')
      else if deprecation = None \<and> (\<exists>r. retirement = Some r \<and> \<not> comparable r c)
      then Inl TypeError
      else if \<not> I3 c deprecation retirement
      then Inl (ValueError ''Retirement date cannot be before creation date'')
      else Inr \<lparr> name = n, version = v, created_date = c,
                 deprecation_date = deprecation, retirement_date = retirement \<rparr>) \<and>
   (comparable_dates (case created of Some c \<Rightarrow> c | None \<Rightarrow> Naive now) deprecation retirement \<longrightarrow>
      Model_init now n v created deprecation retirement =
        (let c = (case created of Some c \<Rightarrow> c | None \<Rightarrow> Naive now) in
         if \<not> I1 c deprecation
         then Inl (ValueError ''Deprecation date cannot be before creation date'')
         else if \<not> I2 deprecation retirement
         then Inl (ValueError ''Retirement date cannot be before deprecation date'')
         else if \<not> I3 c deprecation retirement
         then Inl (ValueError ''Retirement date cannot be before creation date'')
         else Inr \<lparr> name = n, version = v, created_date = c,
                    deprecation_date = deprecation, retirement_date = retirement \<rparr>)) \<and>
   ((\<exists>m. Model_init now n v created deprecation retirement = Inr m) \<longleftrightarrow>
      I1 (case created of Some c \<Rightarrow> c | None \<Rightarrow> Naive now) deprecation \<and>
      I2 deprecation retirement \<and>
      I3 (case created of Some c \<Rightarrow> c | None \<Rightarrow> Naive now) deprecation retirement) \<and>
   ValueError ''Deprecation date cannot be before creation date'' \<noteq>
     ValueError ''Retirement date cannot be before deprecation date'' \<and>
   ValueError ''Deprecation date cannot be before creation date'' \<noteq>
     ValueError ''Retirement date cannot be before creation date'' \<and>
   ValueError ''Retirement date cannot be before deprecation date'' \<noteq>
     ValueError ''Retirement date cannot be before creation date''"
proof -
  have g: "Model_init now n v created deprecation retirement =
     (let c = (case created of Some c \<Rightarrow> c | None \<Rightarrow> Naive now) in
      if \<exists>d. deprecation = Some d \<and> \<not> comparable d c then Inl TypeError
      else if \<not> I1 c deprecation
      then Inl (ValueError ''Deprecation date cannot be before creation date'')
      else if \<exists>d r. deprecation = Some d \<and> retirement = Some r \<and> \<not> comparable r d
      then Inl TypeError
      else if \<not> I2 deprecation retirement
      then Inl (ValueError ''Retirement date cannot be before deprecation date'')
      else if deprecation = None \<and> (\<exists>r. retirement = Some r \<and> \<not> comparable r c)
      then Inl TypeError
      else if \<not> I3 c deprecation retirement
      then Inl (ValueError ''Retirement date cannot be before creation date'')
      else Inr \<lparr> name = n, version = v, created_date = c,
                 deprecation_date = deprecation, retirement_date = retirement \<rparr>)"
    by (cases deprecation; cases retirement)
       (simp_all add: Model_init_def validate_dates_cases Let_def invariants_absent)
  have u: "Model_init now n v created deprecation retirement =
        (let c = (case created of Some c \<Rightarrow> c | None \<Rightarrow> Naive now) in
         if \<not> I1 c deprecation
         then Inl (ValueError ''Deprecation date cannot be before creation date'')
         else if \<not> I2 deprecation retirement
         then Inl (ValueError ''Retirement date cannot be before deprecation date'')
         else if \<not> I3 c deprecation retirement
         then Inl (ValueError ''Retirement date cannot be before creation date'')
         else Inr \<lparr> name = n, version = v, created_date = c,
                    deprecation_date = deprecation, retirement_date = retirement \<rparr>)"
    if "comparable_dates (case created of Some c \<Rightarrow> c | None \<Rightarrow> Naive now) deprecation retirement"
    using that unfolding g
    by (cases deprecation; cases retirement)
       (simp_all add: comparable_dates_def Let_def invariants_absent)
  have i: "(\<exists>m. Model_init now n v created deprecation retirement = Inr m) \<longleftrightarrow>
         I1 (case created of Some c \<Rightarrow> c | None \<Rightarrow> Naive now) deprecation \<and>
         I2 deprecation retirement \<and>
         I3 (case created of Some c \<Rightarrow> c | None \<Rightarrow> Naive now) deprecation retirement"
    unfolding g
    by (cases deprecation; cases retirement)
       (auto simp: Let_def invariants_absent I1_def I2_def I3_def dest: dt_ge_Inr_comparable)
  from g u i show ?thesis by simp
qed

theorem construction_validates_in_order_witness:
  "Model_init june ''M'' ''1.0'' (Some (Naive (2024, 1, 1, 0, 0, 0, 0)))
     (Some (Naive (2023, 12, 31, 0, 0, 0, 0))) (Some (Naive (2023, 1, 1, 0, 0, 0, 0))) =
     Inl (ValueError ''Deprecation date cannot be before creation date'') \<and>
   Model_init june ''M'' ''1.0'' (Some (Aware (2024, 1, 1, 0, 0, 0, 0) 0))
     None (Some (Aware (2024, 1, 1, 0, 30, 0, 0) 3600000000)) =
     Inl (ValueError ''Retirement date cannot be before creation date'') \<and>
   Model_init june ''GPT-3'' ''1.0'' (Some (Naive (2023, 1, 1, 0, 0, 0, 0)))
     (Some (Naive (2024, 1, 31, 0, 0, 0, 0))) (Some (Naive (2024, 12, 31, 12, 30, 0, 500))) =
     Inr gpt3"
proof -
  have c1: "comparable_dates (case Some (Naive (2024, 1, 1, 0, 0, 0, 0)) of Some c \<Rightarrow> c | None \<Rightarrow> Naive june)
     (Some (Naive (2023, 12, 31, 0, 0, 0, 0))) (Some (Naive (2023, 1, 1, 0, 0, 0, 0)))"
    and c2: "comparable_dates (case Some (Aware (2024, 1, 1, 0, 0, 0, 0) 0) of Some c \<Rightarrow> c | None \<Rightarrow> Naive june)
     None (Some (Aware (2024, 1, 1, 0, 30, 0, 0) 3600000000))"
    and c3: "comparable_dates (case Some (Naive (2023, 1, 1, 0, 0, 0, 0)) of Some c \<Rightarrow> c | None \<Rightarrow> Naive june)
     (Some (Naive (2024, 1, 31, 0, 0, 0, 0))) (Some (Naive (2024, 12, 31, 12, 30, 0, 500)))"
    by (simp_all add: comparable_dates_def comparable_def)
  note t1 = construction_validates_in_order
    [of june "''M''" "''1.0''" "Some (Naive (2024, 1, 1, 0, 0, 0, 0))"
        "Some (Naive (2023, 12, 31, 0, 0, 0, 0))" "Some (Naive (2023, 1, 1, 0, 0, 0, 0))",
     THEN conjunct2, THEN conjunct1, THEN mp, OF c1]
  note t2 = construction_validates_in_order
    [of june "''M''" "''1.0''" "Some (Aware (2024, 1, 1, 0, 0, 0, 0) 0)"
        None "Some (Aware (2024, 1, 1, 0, 30, 0, 0) 3600000000)",
     THEN conjunct2, THEN conjunct1, THEN mp, OF c2]
  note t3 = construction_validates_in_order
    [of june "''GPT-3''" "''1.0''" "Some (Naive (2023, 1, 1, 0, 0, 0, 0))"
        "Some (Naive (2024, 1, 31, 0, 0, 0, 0))" "Some (Naive (2024, 12, 31, 12, 30, 0, 500))",
     THEN conjunct2, THEN conjunct1, THEN mp, OF c3]
  have 1: "Model_init june ''M'' ''1.0'' (Some (Naive (2024, 1, 1, 0, 0, 0, 0)))
     (Some (Naive (2023, 12, 31, 0, 0, 0, 0))) (Some (Naive (2023, 1, 1, 0, 0, 0, 0))) =
     Inl (ValueError ''Deprecation date cannot be before creation date'')"
    unfolding t1 by (simp add: I1_def)
  have 2: "Model_init june ''M'' ''1.0'' (Some (Aware (2024, 1, 1, 0, 0, 0, 0) 0))
     None (Some (Aware (2024, 1, 1, 0, 30, 0, 0) 3600000000)) =
     Inl (ValueError ''Retirement date cannot be before creation date'')"
    unfolding t2 by (simp add: I1_def I2_def I3_def days_before_year_def days_before_month_def)
  have 3: "Model_init june ''GPT-3'' ''1.0'' (Some (Naive (2023, 1, 1, 0, 0, 0, 0)))
     (Some (Naive (2024, 1, 31, 0, 0, 0, 0))) (Some (Naive (2024, 12, 31, 12, 30, 0, 500))) =
     Inr gpt3"
    unfolding t3 by (simp add: I1_def I2_def I3_def gpt3_def)
  from 1 2 3 show ?thesis by (intro conjI)
qed

text \<open>
  Claim C5 as stated fails: with no creation date passed (the naive clock reading is
  taken) and an aware deprecation date, construction fails with \<^verbatim>\<open>TypeError\<close>, which
  is none of the three validation errors.
\<close>

theorem mixed_awareness_counterexample:
  "Model_init june ''M'' ''1.0'' None (Some (Aware (2024, 12, 31, 0, 0, 0, 0) 0)) None =
     Inl TypeError \<and>
   TypeError \<noteq> ValueError ''Deprecation date cannot be before creation date'' \<and>
   TypeError \<noteq> ValueError ''Retirement date cannot be before deprecation date'' \<and>
   TypeError \<noteq> ValueError ''Retirement date cannot be before creation date''"
  by (simp add: Model_init_def validate_dates_def)

text \<open>A constructed entity is the record of the arguments, and it passed validation.\<close>

lemma Model_init_Inr:
  "Model_init now n v created deprecation retirement = Inr m \<Longrightarrow>
     m = \<lparr> name = n, version = v,
           created_date = (case created of Some c \<Rightarrow> c | None \<Rightarrow> Naive now),
           deprecation_date = deprecation, retirement_date = retirement \<rparr> \<and>
     validate_dates m = None"
  by (auto simp: Model_init_def Let_def split: option.splits)

text \<open>
  Claim C6, as amended. Construction does not inspect the name or the version: a
  constructed entity has exactly the name and the version that were passed, empty or
  not, and whether construction succeeds depends on the timestamps alone, so that an
  empty name or version is accepted whenever the same timestamps are accepted with any
  other name and version.
\<close>

theorem construction_ignores_name_and_version:
  "(Model_init now n v created deprecation retirement = Inr m \<longrightarrow> name m = n \<and> version m = v) \<and>
   Model_init now n v created deprecation retirement =
     map_sum id (\<lambda>m. m\<lparr>name := n, version := v\<rparr>)
       (Model_init now n' v' created deprecation retirement)"
  by (auto simp: Model_init_def Let_def validate_dates_def split: option.splits)

theorem construction_ignores_name_and_version_witness:
  "Model_init june [] [] None None None =
     Inr \<lparr> name = [], version = [], created_date = Naive june,
           deprecation_date = None, retirement_date = None \<rparr> \<and>
   name \<lparr> name = [], version = [], created_date = Naive june,
          deprecation_date = None, retirement_date = None \<rparr> = []"
  using construction_ignores_name_and_version
    [of june "[]" "[]" None None None
        "\<lparr> name = [], version = [], created_date = Naive june,
           deprecation_date = None, retirement_date = None \<rparr>" "''M''" "''1.0''"]
  by (simp add: Model_init_def validate_dates_def)

text \<open>
  Claim C6 as stated fails: construction with the empty name and the empty version
  produces a value, whose name and version are empty.
\<close>

theorem empty_name_counterexample:
  "Model_init june [] [] None None None =
     Inr \<lparr> name = [], version = [], created_date = Naive june,
           deprecation_date = None, retirement_date = None \<rparr>"
  by (simp add: Model_init_def validate_dates_def)

section \<open>Properties of the registry\<close>

subsection \<open>Lookup and removal\<close>

lemma get_model_Some:
  "get_model r n v = Some m \<Longrightarrow> m \<in> set r \<and> name m = n \<and> version m = v"
  by (induction r) (auto split: if_splits)

lemma get_model_None_iff: "get_model r n v = None \<longleftrightarrow> (n, v) \<notin> set (map key r)"
  by (induction r) (auto simp: key_def)

lemma get_model_first:
  "\<lbrakk>name m = n; version m = v; (n, v) \<notin> set (map key pre)\<rbrakk>
     \<Longrightarrow> get_model (pre @ m # post) n v = Some m"
  by (induction pre) (auto simp: key_def)

lemma remove1_first:
  "(n, v) \<notin> set (map key pre) \<Longrightarrow> key m = (n, v) \<Longrightarrow> remove1 m (pre @ m # post) = pre @ post"
  by (induction pre) auto

text \<open>
  \<^verbatim>\<open>remove_model\<close> deletes the element at the position of the first match, whether
  elements are compared by identity or by their fields.
\<close>

lemma remove_model_first_match:
  "\<lbrakk>name m = n; version m = v; (n, v) \<notin> set (map key pre)\<rbrakk>
     \<Longrightarrow> remove_model (pre @ m # post) n v = (True, pre @ post)"
  by (simp add: remove_model_def get_model_first remove1_first key_def)

text \<open>
  Claim C10. In a list that holds several entities with the same name and version (a
  list \<^verbatim>\<open>load_from_file\<close> can produce), \<^verbatim>\<open>get_model\<close> returns the first of them in
  enumeration order, and \<^verbatim>\<open>remove_model\<close> returns true and deletes that first occurrence
  only: the elements before and after it, later duplicates included, stay in place.
\<close>

theorem first_match_found_and_removed:
  assumes "r = pre @ m # post"
    and "name m = n" and "version m = v"
    and "(n, v) \<notin> set (map key pre)"
  shows "get_model r n v = Some m \<and> remove_model r n v = (True, pre @ post)"
  using assms by (simp add: get_model_first remove_model_first_match)

text \<open>
  The instance: loading three dictionaries, the last two with the key of \<open>gpt4\<close>, gives
  a list with a duplicate key; the first of the two is found and removed.
\<close>

theorem first_match_found_and_removed_witness:
  "snd (load_from_file june fromisoformat
          (Parsed (Some [gpt3_dict, gpt4_dict, gpt4_later_dict])) []) =
     [gpt3] @ gpt4 # [gpt4_later] \<and>
   (''GPT-4'', ''1.0'') \<notin> set (map key [gpt3]) \<and>
   get_model ([gpt3] @ gpt4 # [gpt4_later]) ''GPT-4'' ''1.0'' = Some gpt4 \<and>
   remove_model ([gpt3] @ gpt4 # [gpt4_later]) ''GPT-4'' ''1.0'' = (True, [gpt3] @ [gpt4_later])"
proof -
  have k: "(''GPT-4'', ''1.0'') \<notin> set (map key [gpt3])"
    by (simp add: key_def gpt3_def)
  have n: "name gpt4 = ''GPT-4''" "version gpt4 = ''1.0''"
    by (simp_all add: gpt4_def)
  from first_match_found_and_removed [OF refl n k, of "[gpt4_later]"] k
  show ?thesis
    by (simp add: load_from_file_def from_dict_examples)
qed

subsection \<open>Listing by status\<close>

lemma status_filters_mset:
  "mset (filter (\<lambda>m. f m = Inr ACTIVE) r) + mset (filter (\<lambda>m. f m = Inr DEPRECATED) r) +
   mset (filter (\<lambda>m. f m = Inr RETIRED) r) = mset r"
  if "\<forall>m \<in> set r. \<exists>x. f m = Inr x" for f :: "model \<Rightarrow> error + ModelStatus"
  using that
proof (induction r)
  case Nil
  then show ?case by simp
next
  case (Cons m r)
  then obtain x where "f m = Inr x" by auto
  with Cons show ?case by (cases x) simp_all
qed

lemma get_models_by_status_defined:
  "\<forall>m \<in> set r. \<exists>x. get_status now m ref = Inr x \<Longrightarrow>
     get_models_by_status now r s ref = Inr (filter (\<lambda>m. get_status now m ref = Inr s) r)"
  by (induction r) auto

lemma get_models_by_status_raises:
  "m \<in> set r \<Longrightarrow> get_status now m ref = Inl e \<Longrightarrow>
     \<exists>e'. get_models_by_status now r s ref = Inl e'"
  by (induction r) (auto split: sum.splits)

lemma get_models_by_status_Inr:
  "get_models_by_status now r s ref = Inr xs \<longleftrightarrow>
     (\<forall>m \<in> set r. \<exists>x. get_status now m ref = Inr x) \<and>
     xs = filter (\<lambda>m. get_status now m ref = Inr s) r"
proof (cases "\<forall>m \<in> set r. \<exists>x. get_status now m ref = Inr x")
  case True
  then show ?thesis
    by (auto simp: get_models_by_status_defined)
next
  case False
  then obtain m e where "m \<in> set r" "get_status now m ref = Inl e"
    by (metis sum.exhaust)
  then have "\<exists>e'. get_models_by_status now r s ref = Inl e'"
    by (rule get_models_by_status_raises)
  with False show ?thesis by auto
qed

lemma status_defined_Inr: "status_defined t m \<Longrightarrow> \<exists>x. get_status now m (Some t) = Inr x"
  by (auto simp: get_status_cases status_defined_def split: option.splits)

text \<open>
  Claim C9, as amended. For an explicit reference time \<open>t\<close> at which the three listings
  by status raise nothing, the lists of the active, the deprecated and the retired
  entities partition the enumeration of the registry: taken together they hold every
  entity of the enumeration exactly as often as the enumeration does, no entity is in
  two of them, and each is the enumeration filtered by the status, hence a subsequence
  of it in the same relative order. The listings raise nothing when \<open>t\<close> and the
  milestones of the entities are all naive or all aware.
\<close>

theorem status_lists_partition:
  "(get_models_by_status now r ACTIVE (Some t) = Inr a \<and>
    get_models_by_status now r DEPRECATED (Some t) = Inr d \<and>
    get_models_by_status now r RETIRED (Some t) = Inr x \<longrightarrow>
      mset a + mset d + mset x = mset (get_all_models r) \<and>
      set a \<inter> set d = {} \<and> set a \<inter> set x = {} \<and> set d \<inter> set x = {} \<and>
      subseq a (get_all_models r) \<and> subseq d (get_all_models r) \<and>
      subseq x (get_all_models r)) \<and>
   (get_models_by_status now r s (Some t) = Inr xs \<longrightarrow>
      xs = filter (\<lambda>m. get_status now m (Some t) = Inr s) (get_all_models r)) \<and>
   (list_all (status_defined t) r \<longrightarrow>
      (\<exists>ys. get_models_by_status now r s (Some t) = Inr ys))"
proof (intro conjI impI)
  assume h: "get_models_by_status now r ACTIVE (Some t) = Inr a \<and>
    get_models_by_status now r DEPRECATED (Some t) = Inr d \<and>
    get_models_by_status now r RETIRED (Some t) = Inr x"
  then have all: "\<forall>m \<in> set r. \<exists>y. get_status now m (Some t) = Inr y"
    and a: "a = filter (\<lambda>m. get_status now m (Some t) = Inr ACTIVE) r"
    and d: "d = filter (\<lambda>m. get_status now m (Some t) = Inr DEPRECATED) r"
    and x: "x = filter (\<lambda>m. get_status now m (Some t) = Inr RETIRED) r"
    by (simp_all add: get_models_by_status_Inr)
  show "mset a + mset d + mset x = mset (get_all_models r)"
    unfolding a d x get_all_models_def using all by (rule status_filters_mset)
  show "set a \<inter> set d = {}" "set a \<inter> set x = {}" "set d \<inter> set x = {}"
    unfolding a d x by auto
  show "subseq a (get_all_models r)" "subseq d (get_all_models r)" "subseq x (get_all_models r)"
    unfolding a d x get_all_models_def by (rule subseq_filter_left)+
next
  assume "get_models_by_status now r s (Some t) = Inr xs"
  then show "xs = filter (\<lambda>m. get_status now m (Some t) = Inr s) (get_all_models r)"
    by (simp add: get_models_by_status_Inr get_all_models_def)
next
  assume "list_all (status_defined t) r"
  then have "\<forall>m \<in> set r. \<exists>x. get_status now m (Some t) = Inr x"
    by (auto simp: list_all_iff dest: status_defined_Inr)
  then show "\<exists>ys. get_models_by_status now r s (Some t) = Inr ys"
    by (simp add: get_models_by_status_Inr)
qed

theorem status_lists_partition_witness:
  "list_all (status_defined (Naive june)) [gpt4, gpt3] \<and>
   get_models_by_status june [gpt4, gpt3] ACTIVE (Some (Naive june)) = Inr [gpt4] \<and>
   get_models_by_status june [gpt4, gpt3] DEPRECATED (Some (Naive june)) = Inr [gpt3] \<and>
   get_models_by_status june [gpt4, gpt3] RETIRED (Some (Naive june)) = Inr [] \<and>
   mset [gpt4] + mset [gpt3] + mset [] = mset (get_all_models [gpt4, gpt3])"
proof -
  have sd: "list_all (status_defined (Naive june)) [gpt4, gpt3]"
    by (simp add: status_defined_def comparable_def gpt4_def gpt3_def)
  have a: "get_models_by_status june [gpt4, gpt3] ACTIVE (Some (Naive june)) = Inr [gpt4]"
    and d: "get_models_by_status june [gpt4, gpt3] DEPRECATED (Some (Naive june)) = Inr [gpt3]"
    and x: "get_models_by_status june [gpt4, gpt3] RETIRED (Some (Naive june)) = Inr []"
    by (simp_all add: get_status_def gpt4_def gpt3_def june_def)
  note th = status_lists_partition [of june "[gpt4, gpt3]" "Naive june" "[gpt4]" "[gpt3]" "[]"]
  have m: "mset [gpt4] + mset [gpt3] + mset [] = mset (get_all_models [gpt4, gpt3])"
    using th [THEN conjunct1, THEN mp, OF conjI [OF a conjI [OF d x]], THEN conjunct1] .
  from sd a d x m show ?thesis by (intro conjI)
qed

text \<open>
  Claim C9 as stated fails: for an aware reference time and a registry with an entity
  whose milestones are naive, the listing raises \<^verbatim>\<open>TypeError\<close> and gives no list.
\<close>

theorem status_lists_mixed_counterexample:
  "get_models_by_status june [gpt4, gpt3] ACTIVE (Some (Aware (2024, 6, 1, 0, 0, 0, 0) 0)) =
     Inl TypeError"
  by (simp add: get_status_def gpt4_def gpt3_def)

section \<open>Properties of serialisation\<close>

subsection \<open>Timestamps as text\<close>

lemma digit_of_digit_char:
  assumes "k < 10"
  shows "digit_of (digit_char k) = Some k"
proof -
  from assms have "k \<in> {0, 1, 2, 3, 4, 5, 6, 7, 8, 9}" by auto
  then show ?thesis
    by (auto simp: digit_of_def digit_char_def)
qed

lemma digit_char_no_sign:
  assumes "k < 10"
  shows "\<not> is_sign (digit_char k)"
proof -
  from assms have "k \<in> {0, 1, 2, 3, 4, 5, 6, 7, 8, 9}" by auto
  then show ?thesis
    by (auto simp: is_sign_def digit_char_def)
qed

lemma parse_digits_append:
  "parse_digits a (xs @ ys) =
     (case parse_digits a xs of None \<Rightarrow> None | Some b \<Rightarrow> parse_digits b ys)"
  by (induction xs arbitrary: a) (auto split: option.splits)

lemma length_zero_padded [simp]: "length (zero_padded w n) = w"
  by (induction w arbitrary: n) auto

lemma zero_padded_no_sign: "c \<in> set (zero_padded w n) \<Longrightarrow> \<not> is_sign c"
  by (induction w arbitrary: n) (auto simp: digit_char_no_sign)

lemma parse_digits_zero_padded:
  "n < 10 ^ w \<Longrightarrow> parse_digits a (zero_padded w n) = Some (a * 10 ^ w + n)"
proof (induction w arbitrary: n)
  case 0
  then show ?case by simp
next
  case (Suc w)
  from Suc.prems have "n div 10 < 10 ^ w" by (simp add: less_mult_imp_div_less mult.commute)
  then have "parse_digits a (zero_padded w (n div 10)) = Some (a * 10 ^ w + n div 10)"
    by (rule Suc.IH)
  moreover have "10 * (a * 10 ^ w + n div 10) + n mod 10 = a * 10 ^ Suc w + n"
    by (simp add: algebra_simps)
  ultimately show ?case
    by (simp add: parse_digits_append digit_of_digit_char)
qed

lemma parse_zero_padded:
  "n < 10 ^ w \<Longrightarrow> parse_digits 0 (zero_padded w n) = Some n"
  by (simp add: parse_digits_zero_padded)

lemma parse_hms_hm:
  assumes "h < 24" "mi < 60"
  shows "parse_hms (zero_padded 2 h @ CHR '':'' # zero_padded 2 mi) = Some (h, mi, 0, 0)"
proof -
  have p: "parse_digits 0 (zero_padded 2 h) = Some h" "parse_digits 0 (zero_padded 2 mi) = Some mi"
    using assms by (simp_all add: parse_zero_padded del: zero_padded.simps)
  show ?thesis
    unfolding parse_hms_def using assms
    by (simp add: p nth_append del: zero_padded.simps)
qed

lemma parse_hms_hms:
  assumes "h < 24" "mi < 60" "s < 60"
  shows "parse_hms (zero_padded 2 h @ CHR '':'' # zero_padded 2 mi @ CHR '':'' # zero_padded 2 s) =
           Some (h, mi, s, 0)"
proof -
  have p: "parse_digits 0 (zero_padded 2 h) = Some h" "parse_digits 0 (zero_padded 2 mi) = Some mi"
    "parse_digits 0 (zero_padded 2 s) = Some s"
    using assms by (simp_all add: parse_zero_padded del: zero_padded.simps)
  show ?thesis
    unfolding parse_hms_def using assms
    by (simp add: p nth_append del: zero_padded.simps)
qed

lemma parse_hms_hmsf:
  assumes "h < 24" "mi < 60" "s < 60" "us < 1000000"
  shows "parse_hms (zero_padded 2 h @ CHR '':'' # zero_padded 2 mi @ CHR '':'' # zero_padded 2 s @
           CHR ''.'' # zero_padded 6 us) = Some (h, mi, s, us)"
proof -
  have p: "parse_digits 0 (zero_padded 2 h) = Some h" "parse_digits 0 (zero_padded 2 mi) = Some mi"
    "parse_digits 0 (zero_padded 2 s) = Some s" "parse_digits 0 (zero_padded 6 us) = Some us"
    using assms by (simp_all add: parse_zero_padded del: zero_padded.simps)
  show ?thesis
    unfolding parse_hms_def using assms
    by (simp add: p nth_append del: zero_padded.simps)
qed

lemma parse_hms_format_time:
  assumes "h < 24" "mi < 60" "s < 60" "us < 1000000"
  shows "parse_hms (format_time h mi s us) = Some (h, mi, s, us)"
  using assms parse_hms_hms [of h mi s] parse_hms_hmsf [of h mi s us]
  by (simp add: format_time_def del: zero_padded.simps)

lemma format_time_no_sign: "c \<in> set (format_time h mi s us) \<Longrightarrow> \<not> is_sign c"
  by (auto simp: format_time_def is_sign_def dest: zero_padded_no_sign
           simp del: zero_padded.simps split: if_splits)

text \<open>The parts of an offset, and its digits read back.\<close>

lemma hms_regroup: "(x::nat) * 3600 + y * 60 + z = (x * 60 + y) * 60 + z"
  by simp

lemma seconds_parts: "(q div 3600) * 3600 + (q div 60 mod 60) * 60 + q mod 60 = (q::nat)"
proof -
  have a: "q div 3600 = q div 60 div 60" by (simp add: div_mult2_eq)
  have b: "(q div 60 div 60) * 60 + q div 60 mod 60 = q div 60" by simp
  have c: "(q div 60) * 60 + q mod 60 = q" by simp
  show ?thesis unfolding a hms_regroup b c ..
qed

lemma offset_parts:
  fixes a :: nat
  shows "((a div 1000000 div 3600) * 3600 + (a div 1000000 div 60 mod 60) * 60 +
          a div 1000000 mod 60) * 1000000 + a mod 1000000 = a"
  unfolding seconds_parts by simp

lemma offset_whole_minutes:
  "(a::nat) mod 60000000 = 0 \<longleftrightarrow> a div 1000000 mod 60 = 0 \<and> a mod 1000000 = 0"
  using mod_mult2_eq [of a 1000000 60] by simp

lemma parse_hms_offset_digits:
  assumes "a < 86400000000"
  shows "parse_hms (offset_digits a) =
           Some (a div 1000000 div 3600, a div 1000000 div 60 mod 60, a div 1000000 mod 60,
                 a mod 1000000)"
proof -
  from assms have h: "a div 1000000 div 3600 < 24" by simp
  have m: "a div 1000000 div 60 mod 60 < 60" and s: "a div 1000000 mod 60 < 60"
    and u: "a mod 1000000 < 1000000"
    by simp_all
  consider (hm) "a mod 60000000 = 0"
    | (hms) "a mod 60000000 \<noteq> 0" "a mod 1000000 = 0"
    | (hmsf) "a mod 1000000 \<noteq> 0"
    by blast
  then show ?thesis
  proof cases
    case hm
    then have z: "a div 1000000 mod 60 = 0" "a mod 1000000 = 0"
      by (simp_all add: offset_whole_minutes)
    show ?thesis
      unfolding offset_digits_def using hm z parse_hms_hm [OF h m]
      by (simp del: zero_padded.simps)
  next
    case hms
    show ?thesis
      unfolding offset_digits_def using hms parse_hms_hms [OF h m s]
      by (simp del: zero_padded.simps)
  next
    case hmsf
    then have "a mod 60000000 \<noteq> 0"
      by (simp add: offset_whole_minutes)
    with hmsf show ?thesis
      unfolding offset_digits_def using parse_hms_hmsf [OF h m s u]
      by (simp del: zero_padded.simps)
  qed
qed

lemma takeWhile_until: "(\<And>x. x \<in> set xs \<Longrightarrow> P x) \<Longrightarrow> \<not> P y \<Longrightarrow> takeWhile P (xs @ y # ys) = xs"
  by (simp add: takeWhile_append2)

lemma dropWhile_until: "(\<And>x. x \<in> set xs \<Longrightarrow> P x) \<Longrightarrow> \<not> P y \<Longrightarrow> dropWhile P (xs @ y # ys) = y # ys"
  by (simp add: dropWhile_append2)

lemma parse_time_naive:
  assumes "h < 24" "mi < 60" "s < 60" "us < 1000000"
  shows "parse_time (c # format_time h mi s us) = Some ((h, mi, s, us), None)"
proof -
  have t: "takeWhile (\<lambda>c. \<not> is_sign c) (format_time h mi s us) = format_time h mi s us"
    and d: "dropWhile (\<lambda>c. \<not> is_sign c) (format_time h mi s us) = []"
    by (simp_all add: takeWhile_eq_all_conv format_time_no_sign)
  show ?thesis
    by (simp add: parse_time_def t d parse_hms_format_time [OF assms])
qed

lemma parse_time_aware:
  assumes "h < 24" "mi < 60" "s < 60" "us < 1000000"
    and "- 86400000000 < off" "off < 86400000000"
  shows "parse_time (c # format_time h mi s us @ format_offset off) = Some ((h, mi, s, us), Some off)"
proof -
  define sg where "sg = (if off < 0 then CHR ''-'' else CHR ''+'')"
  define a where "a = nat \<bar>off\<bar>"
  have sg: "is_sign sg" by (simp add: sg_def is_sign_def)
  have f: "format_offset off = sg # offset_digits a"
    by (simp add: format_offset_def sg_def a_def)
  from assms have a: "a < 86400000000" by (simp add: a_def)
  have t: "takeWhile (\<lambda>c. \<not> is_sign c) (format_time h mi s us @ sg # offset_digits a) =
             format_time h mi s us"
    by (rule takeWhile_until) (simp_all add: format_time_no_sign sg)
  have d: "dropWhile (\<lambda>c. \<not> is_sign c) (format_time h mi s us @ sg # offset_digits a) =
             sg # offset_digits a"
    by (rule dropWhile_until) (simp_all add: format_time_no_sign sg)
  have v: "(if sg = CHR ''-'' then - int a else int a) = off"
    by (auto simp: sg_def a_def)
  have "int (((a div 1000000 div 3600) * 3600 + (a div 1000000 div 60 mod 60) * 60 +
          a div 1000000 mod 60) * 1000000 + a mod 1000000) = int a"
    by (simp only: offset_parts)
  with v show ?thesis
    unfolding f
    by (simp add: parse_time_def t d parse_hms_format_time [OF assms(1-4)]
          parse_hms_offset_digits [OF a] Let_def del: of_nat_add of_nat_mult
          split: if_splits)
qed

text \<open>The parser reads back what \<^verbatim>\<open>isoformat\<close> prints, for naive and for aware datetimes.\<close>

lemma fromisoformat_date_rest:
  assumes "1 \<le> y" "y \<le> 9999" "1 \<le> mo" "mo \<le> 12" "1 \<le> d" "d \<le> days_in_month y mo"
    and "parse_time rest = Some ((h, mi, s, us), tz)"
    and "valid_datetime (case tz of None \<Rightarrow> Naive (y, mo, d, h, mi, s, us)
                                  | Some off \<Rightarrow> Aware (y, mo, d, h, mi, s, us) off)"
  shows "fromisoformat (zero_padded 4 y @ CHR ''-'' # zero_padded 2 mo @ CHR ''-'' #
                        zero_padded 2 d @ rest) =
           Some (case tz of None \<Rightarrow> Naive (y, mo, d, h, mi, s, us)
                          | Some off \<Rightarrow> Aware (y, mo, d, h, mi, s, us) off)"
proof -
  from assms have "d \<le> 31" by (simp add: days_in_month_def split: if_splits)
  with assms have p: "parse_digits 0 (zero_padded 4 y) = Some y"
    "parse_digits 0 (zero_padded 2 mo) = Some mo" "parse_digits 0 (zero_padded 2 d) = Some d"
    by (simp_all add: parse_zero_padded del: zero_padded.simps)
  show ?thesis
    unfolding fromisoformat_def
    using assms(7,8)
    by (simp add: p nth_append Let_def del: zero_padded.simps valid_datetime.simps)
qed

lemma fromisoformat_isoformat:
  assumes "valid_datetime t"
  shows "fromisoformat (isoformat t) = Some t"
proof (cases t)
  case (Naive f)
  obtain y mo d h mi s us where f: "f = (y, mo, d, h, mi, s, us)"
    by (cases f) auto
  from assms Naive f have v: "1 \<le> y" "y \<le> 9999" "1 \<le> mo" "mo \<le> 12" "1 \<le> d"
    "d \<le> days_in_month y mo" "h < 24" "mi < 60" "s < 60" "us < 1000000"
    by simp_all
  have pt: "parse_time (CHR ''T'' # format_time h mi s us) = Some ((h, mi, s, us), None)"
    using v by (intro parse_time_naive)
  have "fromisoformat (zero_padded 4 y @ CHR ''-'' # zero_padded 2 mo @ CHR ''-'' #
          zero_padded 2 d @ CHR ''T'' # format_time h mi s us) =
        Some (case None of None \<Rightarrow> Naive (y, mo, d, h, mi, s, us)
                         | Some off \<Rightarrow> Aware (y, mo, d, h, mi, s, us) off)"
    using v(1-6) pt
    by (rule fromisoformat_date_rest) (use assms Naive f in simp)
  then show ?thesis
    unfolding Naive f by (simp del: zero_padded.simps)
next
  case (Aware f off)
  obtain y mo d h mi s us where f: "f = (y, mo, d, h, mi, s, us)"
    by (cases f) auto
  from assms Aware f have v: "1 \<le> y" "y \<le> 9999" "1 \<le> mo" "mo \<le> 12" "1 \<le> d"
    "d \<le> days_in_month y mo" "h < 24" "mi < 60" "s < 60" "us < 1000000"
    "- 86400000000 < off" "off < 86400000000"
    by simp_all
  have pt: "parse_time (CHR ''T'' # format_time h mi s us @ format_offset off) =
              Some ((h, mi, s, us), Some off)"
    using v by (intro parse_time_aware)
  have "fromisoformat (zero_padded 4 y @ CHR ''-'' # zero_padded 2 mo @ CHR ''-'' #
          zero_padded 2 d @ CHR ''T'' # format_time h mi s us @ format_offset off) =
        Some (case Some off of None \<Rightarrow> Naive (y, mo, d, h, mi, s, us)
                             | Some off \<Rightarrow> Aware (y, mo, d, h, mi, s, us) off)"
    using v(1-6) pt
    by (rule fromisoformat_date_rest) (use assms Aware f in simp)
  then show ?thesis
    unfolding Aware f by (simp del: zero_padded.simps)
qed

lemma isoformat_nonempty: "isoformat t \<noteq> []"
proof (cases t)
  case (Naive f)
  then show ?thesis by (cases f) simp
next
  case (Aware f off)
  then show ?thesis by (cases f) simp
qed

subsection \<open>Round trip\<close>

lemma fromisoformat_value_isoformat:
  "valid_datetime t \<Longrightarrow> fromisoformat_value fromisoformat (JString (isoformat t)) = Inr t"
  by (simp add: fromisoformat_isoformat)

lemma optional_date_isoformat:
  "(\<And>t. dt = Some t \<Longrightarrow> valid_datetime t) \<Longrightarrow>
   optional_date fromisoformat
     (Some (case dt of Some d \<Rightarrow> JString (isoformat d) | None \<Rightarrow> JNull)) = Inr dt"
  by (cases dt) (simp_all add: optional_date_def isoformat_nonempty fromisoformat_isoformat)

lemma from_dict_to_dict:
  assumes "validate_dates e = None" and "valid_model e" and "to_dict now e = Inr data"
  shows "from_dict now' fromisoformat data = Inr e"
proof -
  have m: "Model_init now' (name e) (version e) (Some (created_date e)) (deprecation_date e)
          (retirement_date e) = Inr e"
    using assms(1) by (cases e) (simp add: Model_init_def Let_def)
  from assms(2) have c: "valid_datetime (created_date e)"
    and d: "\<And>t. deprecation_date e = Some t \<Longrightarrow> valid_datetime t"
    and r: "\<And>t. retirement_date e = Some t \<Longrightarrow> valid_datetime t"
    by (simp_all add: valid_model_def)
  from assms(3) obtain s where
    "data = \<lparr> d_name = Some (name e), d_version = Some (version e),
       d_created_date = Some (JString (isoformat (created_date e))),
       d_deprecation_date =
         Some (case deprecation_date e of Some d \<Rightarrow> JString (isoformat d) | None \<Rightarrow> JNull),
       d_retirement_date =
         Some (case retirement_date e of Some d \<Rightarrow> JString (isoformat d) | None \<Rightarrow> JNull),
       d_status = Some (JString (status_value s)) \<rparr>"
    by (auto simp: to_dict_def split: sum.splits)
  then show ?thesis
    using m
    by (simp add: from_dict_def fromisoformat_isoformat [OF c] optional_date_isoformat [OF d]
          optional_date_isoformat [OF r] del: isoformat.simps)
qed

lemma to_dict_defined: "status_defined (Naive now) e \<Longrightarrow> \<exists>data. to_dict now e = Inr data"
  using status_defined_Inr [of "Naive now" e now]
  by (auto simp: to_dict_def get_status_None)

lemma to_dict_raises:
  assumes "validate_dates e = None" and "\<not> status_defined (Naive now) e"
  shows "to_dict now e = Inl TypeError"
proof -
  from assms(1) have c: "comparable_dates (created_date e) (deprecation_date e) (retirement_date e)"
    by (simp add: validate_dates_comparable)
  have "get_status now e (Some (Naive now)) = Inl TypeError"
    using assms(2) c
    by (cases "deprecation_date e"; cases "retirement_date e")
       (auto simp: get_status_cases status_defined_def comparable_dates_def comparable_def)
  then show ?thesis
    by (simp add: to_dict_def get_status_None)
qed

text \<open>
  Claim C7, as amended. For an entity \<open>e\<close> that construction returned and whose
  serialisation raises nothing, deserialising the serialised \<open>e\<close> succeeds and returns
  \<open>e\<close> itself: the same name, version and three timestamps, to the microsecond and with
  the same offset. Serialisation raises nothing when the milestones of \<open>e\<close> are naive
  or absent; when \<open>e\<close> has an aware milestone it raises \<^verbatim>\<open>TypeError\<close>, since the derived
  status compares the milestone with the naive clock reading. Deserialisation ends in
  the constructor: for a dictionary whose fields are present and parse, the result is
  that of construction from the parsed values, with the same validation and the same
  errors.
\<close>

theorem serialisation_round_trip:
  "(Model_init now0 n v created deprecation retirement = Inr e \<and> valid_model e \<and>
    to_dict now e = Inr data \<longrightarrow>
      from_dict now' fromisoformat data = Inr e) \<and>
   (status_defined (Naive now) e \<longrightarrow> (\<exists>data. to_dict now e = Inr data)) \<and>
   (d_name entry = Some dn \<and> d_version entry = Some dv \<and> d_created_date entry = Some cj \<and>
    fromisoformat_value parse cj = Inr c \<and>
    optional_date parse (d_deprecation_date entry) = Inr dep \<and>
    optional_date parse (d_retirement_date entry) = Inr ret \<longrightarrow>
      from_dict now' parse entry = Model_init now' dn dv (Some c) dep ret) \<and>
   (Model_init now0 n v created deprecation retirement = Inr e \<and>
    \<not> status_defined (Naive now) e \<longrightarrow> to_dict now e = Inl TypeError)"
proof (intro conjI impI)
  assume a: "Model_init now0 n v created deprecation retirement = Inr e \<and> valid_model e \<and>
    to_dict now e = Inr data"
  then have "validate_dates e = None"
    by (auto dest: Model_init_Inr)
  with a show "from_dict now' fromisoformat data = Inr e"
    by (blast intro: from_dict_to_dict)
next
  assume "status_defined (Naive now) e"
  then show "\<exists>data. to_dict now e = Inr data"
    by (rule to_dict_defined)
next
  assume "d_name entry = Some dn \<and> d_version entry = Some dv \<and> d_created_date entry = Some cj \<and>
    fromisoformat_value parse cj = Inr c \<and>
    optional_date parse (d_deprecation_date entry) = Inr dep \<and>
    optional_date parse (d_retirement_date entry) = Inr ret"
  then show "from_dict now' parse entry = Model_init now' dn dv (Some c) dep ret"
    by (simp add: from_dict_def)
next
  assume a: "Model_init now0 n v created deprecation retirement = Inr e \<and>
    \<not> status_defined (Naive now) e"
  then have "validate_dates e = None"
    by (auto dest: Model_init_Inr)
  with a show "to_dict now e = Inl TypeError"
    by (blast intro: to_dict_raises)
qed

theorem serialisation_round_trip_witness:
  "Model_init june ''GPT-3'' ''1.0'' (Some (Naive (2023, 1, 1, 0, 0, 0, 0)))
      (Some (Naive (2024, 1, 31, 0, 0, 0, 0))) (Some (Naive (2024, 12, 31, 12, 30, 0, 500))) =
      Inr gpt3 \<and>
   valid_model gpt3 \<and> status_defined (Naive june) gpt3 \<and>
   to_dict june gpt3 = Inr gpt3_dict \<and>
   from_dict june fromisoformat gpt3_dict = Inr gpt3 \<and>
   Model_init june ''GPT-4'' ''ist'' (Some (Aware (2024, 1, 1, 9, 15, 0, 250000) 19800000000))
      None None = Inr gpt4_ist \<and>
   valid_model gpt4_ist \<and>
   to_dict june gpt4_ist = Inr gpt4_ist_dict \<and>
   from_dict june fromisoformat gpt4_ist_dict = Inr gpt4_ist \<and>
   from_dict june fromisoformat misordered_dict =
     Model_init june ''GPT-2'' ''1.0'' (Some (Naive (2024, 1, 1, 0, 0, 0, 0)))
       (Some (Naive (2023, 12, 31, 0, 0, 0, 0))) None \<and>
   Model_init june ''GPT-2'' ''1.0'' (Some (Naive (2024, 1, 1, 0, 0, 0, 0)))
       (Some (Naive (2023, 12, 31, 0, 0, 0, 0))) None =
     Inl (ValueError ''Deprecation date cannot be before creation date'') \<and>
   \<not> status_defined (Naive june) gpt4_utc \<and>
   to_dict june gpt4_utc = Inl TypeError"
proof -
  have cu: "Model_init june ''GPT-4'' ''utc'' (Some (Aware (2024, 1, 1, 0, 0, 0, 0) 0))
     (Some (Aware (2024, 1, 31, 0, 0, 0, 0) 0)) None = Inr gpt4_utc"
    by (simp add: Model_init_def validate_dates_def gpt4_utc_def)
  have nu: "\<not> status_defined (Naive june) gpt4_utc"
    by (simp add: status_defined_def comparable_def gpt4_utc_def)
  note thu = serialisation_round_trip
    [of june "''GPT-4''" "''utc''" "Some (Aware (2024, 1, 1, 0, 0, 0, 0) 0)"
        "Some (Aware (2024, 1, 31, 0, 0, 0, 0) 0)" None gpt4_utc june]
  have ru: "to_dict june gpt4_utc = Inl TypeError"
    using thu [THEN conjunct2, THEN conjunct2, THEN conjunct2, THEN mp, OF conjI [OF cu nu]] .
  have c: "Model_init june ''GPT-3'' ''1.0'' (Some (Naive (2023, 1, 1, 0, 0, 0, 0)))
      (Some (Naive (2024, 1, 31, 0, 0, 0, 0))) (Some (Naive (2024, 12, 31, 12, 30, 0, 500))) =
      Inr gpt3"
    by (simp add: Model_init_def validate_dates_def gpt3_def)
  have v: "valid_model gpt3"
    by (simp add: valid_model_def gpt3_def days_in_month_def)
  have sd: "status_defined (Naive june) gpt3"
    by (simp add: status_defined_def comparable_def gpt3_def)
  have d: "to_dict june gpt3 = Inr gpt3_dict"
    by (rule to_dict_examples)
  have c': "Model_init june ''GPT-4'' ''ist''
      (Some (Aware (2024, 1, 1, 9, 15, 0, 250000) 19800000000)) None None = Inr gpt4_ist"
    by (simp add: Model_init_def validate_dates_def gpt4_ist_def)
  have v': "valid_model gpt4_ist"
    by (simp add: valid_model_def gpt4_ist_def days_in_month_def)
  have d': "to_dict june gpt4_ist = Inr gpt4_ist_dict"
    by (rule to_dict_examples)
  have m: "d_name misordered_dict = Some ''GPT-2'' \<and> d_version misordered_dict = Some ''1.0'' \<and>
    d_created_date misordered_dict = Some (JString ''2024-01-01T00:00:00'') \<and>
    fromisoformat_value fromisoformat (JString ''2024-01-01T00:00:00'') =
      Inr (Naive (2024, 1, 1, 0, 0, 0, 0)) \<and>
    optional_date fromisoformat (d_deprecation_date misordered_dict) =
      Inr (Some (Naive (2023, 12, 31, 0, 0, 0, 0))) \<and>
    optional_date fromisoformat (d_retirement_date misordered_dict) = Inr None"
    by (simp add: misordered_dict_def optional_date_def fromisoformat_examples)
  note th = serialisation_round_trip
    [of june "''GPT-3''" "''1.0''" "Some (Naive (2023, 1, 1, 0, 0, 0, 0))"
        "Some (Naive (2024, 1, 31, 0, 0, 0, 0))" "Some (Naive (2024, 12, 31, 12, 30, 0, 500))"
        gpt3 june gpt3_dict june misordered_dict "''GPT-2''" "''1.0''"
        "JString ''2024-01-01T00:00:00''" fromisoformat "Naive (2024, 1, 1, 0, 0, 0, 0)"
        "Some (Naive (2023, 12, 31, 0, 0, 0, 0))" None]
  note th' = serialisation_round_trip
    [of june "''GPT-4''" "''ist''" "Some (Aware (2024, 1, 1, 9, 15, 0, 250000) 19800000000)"
        None None gpt4_ist june gpt4_ist_dict june]
  have r1: "from_dict june fromisoformat gpt3_dict = Inr gpt3"
    using th [THEN conjunct1, THEN mp, OF conjI [OF c conjI [OF v d]]] .
  have r1': "from_dict june fromisoformat gpt4_ist_dict = Inr gpt4_ist"
    using th' [THEN conjunct1, THEN mp, OF conjI [OF c' conjI [OF v' d']]] .
  have r2: "from_dict june fromisoformat misordered_dict =
     Model_init june ''GPT-2'' ''1.0'' (Some (Naive (2024, 1, 1, 0, 0, 0, 0)))
       (Some (Naive (2023, 12, 31, 0, 0, 0, 0))) None"
    using th [THEN conjunct2, THEN conjunct2, THEN conjunct1, THEN mp, OF m] .
  have r3: "Model_init june ''GPT-2'' ''1.0'' (Some (Naive (2024, 1, 1, 0, 0, 0, 0)))
       (Some (Naive (2023, 12, 31, 0, 0, 0, 0))) None =
     Inl (ValueError ''Deprecation date cannot be before creation date'')"
    by (simp add: Model_init_def validate_dates_def)
  show ?thesis by (intro conjI c v sd d r1 c' v' d' r1' r2 r3 nu ru)
qed

text \<open>
  Claim C7 as stated fails: an entity with an aware creation date and an aware
  deprecation date is validly constructed, and serialising it raises \<^verbatim>\<open>TypeError\<close>.
\<close>

theorem aware_serialisation_counterexample:
  "Model_init june ''GPT-4'' ''utc'' (Some (Aware (2024, 1, 1, 0, 0, 0, 0) 0))
     (Some (Aware (2024, 1, 31, 0, 0, 0, 0) 0)) None = Inr gpt4_utc \<and>
   to_dict june gpt4_utc = Inl TypeError"
  by (simp add: Model_init_def validate_dates_def gpt4_utc_def to_dict_def get_status_def)

section \<open>Properties of loading\<close>

lemma from_dicts_fails:
  "d \<in> set ds \<Longrightarrow> from_dict now parse d = Inl e \<Longrightarrow> \<exists>e'. from_dicts now parse ds = Inl e'"
  by (induction ds) (auto split: sum.splits)

text \<open>
  Claim C2. A load that raises leaves the list of the registry as it was before the
  call; and if deserialising any one of the entities of the source raises (a timestamp
  order that fails validation, a timestamp that does not parse, a missing key), the load
  raises, so that nothing of the source replaces the contents.
\<close>

theorem failed_load_keeps_contents:
  "(load_from_file now parse src r = (Some e, r') \<longrightarrow> r' = r) \<and>
   (src = Parsed (Some ds) \<and> d \<in> set ds \<and> from_dict now parse d = Inl e0 \<longrightarrow>
      (\<exists>e'. load_from_file now parse src r = (Some e', r)))"
  by (auto simp: load_from_file_def split: source.splits sum.splits option.splits
           dest: from_dicts_fails)

theorem failed_load_keeps_contents_witness:
  "load_from_file june fromisoformat (Parsed (Some [gpt4_dict, misordered_dict])) [gpt3] =
     (Some (ValueError ''Deprecation date cannot be before creation date''), [gpt3]) \<and>
   load_from_file june fromisoformat (Parsed (Some [gpt4_dict, unparsable_dict])) [gpt3] =
     (Some (IsoformatError ''yesterday''), [gpt3]) \<and>
   load_from_file june fromisoformat (Parsed (Some [gpt4_dict, nameless_dict])) [gpt3] =
     (Some (KeyError ''name''), [gpt3])"
  using
    failed_load_keeps_contents [of june fromisoformat "Parsed (Some [gpt4_dict, misordered_dict])"
      "[gpt3]" "ValueError ''Deprecation date cannot be before creation date''" "[gpt3]"
      "[gpt4_dict, misordered_dict]" misordered_dict
      "ValueError ''Deprecation date cannot be before creation date''"]
    failed_load_keeps_contents [of june fromisoformat "Parsed (Some [gpt4_dict, unparsable_dict])"
      "[gpt3]" "IsoformatError ''yesterday''" "[gpt3]"
      "[gpt4_dict, unparsable_dict]" unparsable_dict "IsoformatError ''yesterday''"]
    failed_load_keeps_contents [of june fromisoformat "Parsed (Some [gpt4_dict, nameless_dict])"
      "[gpt3]" "KeyError ''name''" "[gpt3]"
      "[gpt4_dict, nameless_dict]" nameless_dict "KeyError ''name''"]
  by (simp add: load_from_file_def from_dict_examples)

text \<open>
  Claim C8, as amended. A source that is a well-formed top-level dictionary without the
  key \<^verbatim>\<open>"models"\<close> is read as one with an empty list of entities: the load raises
  nothing and leaves the registry empty.
\<close>

theorem load_without_models_field:
  "load_from_file now parse (Parsed None) r = (None, [])"
  by (simp add: load_from_file_def)

theorem load_without_models_field_witness:
  "load_from_file june fromisoformat (Parsed None) [gpt4, gpt3] = (None, [])"
  using load_without_models_field [of june fromisoformat "[gpt4, gpt3]"] .

text \<open>
  Claim C8 as stated fails: on a source without the key \<^verbatim>\<open>"models"\<close> the load of a
  registry that holds one entity raises no error, and the registry is empty afterwards.
\<close>

theorem load_without_models_counterexample:
  "load_from_file june fromisoformat (Parsed None) [gpt4] = (None, [])"
  by (simp add: load_from_file_def)

subsection \<open>Uniqueness of keys\<close>

lemma distinct_map_remove1: "distinct (map f xs) \<Longrightarrow> distinct (map f (remove1 x xs))"
proof (induction xs)
  case Nil
  then show ?case by simp
next
  case (Cons y ys)
  have "set (remove1 x ys) \<subseteq> set ys" by (rule set_remove1_subset)
  with Cons show ?case by auto
qed

lemma I4_add_model: "I4 r \<Longrightarrow> I4 (snd (add_model r m))"
  by (auto simp: I4_def add_model_def get_model_None_iff key_def)

lemma I4_remove_model: "I4 r \<Longrightarrow> I4 (snd (remove_model r n v))"
  by (auto simp: I4_def remove_model_def distinct_map_remove1 split: option.splits)

lemma from_dict_key:
  "from_dict now parse d = Inr m \<Longrightarrow> d_name d = Some (name m) \<and> d_version d = Some (version m)"
  by (auto simp: from_dict_def split: option.splits sum.splits dest!: Model_init_Inr)

lemma from_dicts_keys:
  "from_dicts now parse ds = Inr ms \<Longrightarrow>
     map (\<lambda>d. (d_name d, d_version d)) ds = map (\<lambda>m. (Some (name m), Some (version m))) ms"
proof (induction ds arbitrary: ms)
  case Nil
  then show ?case by simp
next
  case (Cons d ds)
  then show ?case
    by (auto split: sum.splits dest: from_dict_key)
qed

lemma from_dicts_I4:
  assumes "from_dicts now parse ds = Inr ms"
    and "distinct (map (\<lambda>d. (d_name d, d_version d)) ds)"
  shows "I4 ms"
proof -
  have "distinct (map ((\<lambda>(a, b). (Some a, Some b)) \<circ> key) ms)"
    using assms(2) from_dicts_keys [OF assms(1)] by (simp add: key_def comp_def)
  then have "distinct ms" and "inj_on ((\<lambda>(a, b). (Some a, Some b)) \<circ> key) (set ms)"
    by (simp_all add: distinct_map)
  then show ?thesis
    unfolding I4_def distinct_map by (blast intro: inj_on_imageI2)
qed

lemma I4_load_from_file:
  "I4 r \<Longrightarrow> distinct_keys src \<Longrightarrow> I4 (snd (load_from_file now parse src r))"
  by (cases src rule: distinct_keys.cases)
     (auto simp: load_from_file_def I4_def[of "[]"] split: sum.splits dest: from_dicts_I4)

lemma I4_step: "I4 r \<Longrightarrow> op_distinct_keys x \<Longrightarrow> I4 (step now parse r x)"
  by (cases x) (simp_all add: step_def I4_add_model I4_remove_model I4_load_from_file)

lemma I4_foldl_step:
  "I4 r \<Longrightarrow> list_all op_distinct_keys xs \<Longrightarrow> I4 (foldl (step now parse) r xs)"
  by (induction xs arbitrary: r) (simp_all add: I4_step)

text \<open>
  Claim C1, as amended. Starting from the empty registry, after any sequence of
  additions, removals and loads in which every load reads a source whose entities have
  pairwise distinct keys, no two entities of the registry have the same name and
  version.
\<close>

theorem unique_keys_reachable:
  "list_all op_distinct_keys xs \<Longrightarrow> I4 (run now parse xs)"
  unfolding run_def registry_init_def by (rule I4_foldl_step) (simp_all add: I4_def)

theorem unique_keys_reachable_witness:
  "list_all op_distinct_keys
     [Add gpt4, Load (Parsed (Some [gpt3_dict, gpt4_dict])), Add gpt4_later,
      Remove ''GPT-3'' ''1.0'', Add gpt3] \<and>
   I4 (run june fromisoformat
     [Add gpt4, Load (Parsed (Some [gpt3_dict, gpt4_dict])), Add gpt4_later,
      Remove ''GPT-3'' ''1.0'', Add gpt3])"
proof -
  have h: "list_all op_distinct_keys
     [Add gpt4, Load (Parsed (Some [gpt3_dict, gpt4_dict])), Add gpt4_later,
      Remove ''GPT-3'' ''1.0'', Add gpt3]"
    by (simp add: gpt3_dict_def gpt4_dict_def)
  from h unique_keys_reachable [OF h, of june fromisoformat] show ?thesis by simp
qed

text \<open>
  Claim C1 as stated fails: \<^verbatim>\<open>load_from_file\<close> does not compare keys, and one load of a
  source with two entities of the same name and version, from the empty registry,
  leaves both in the registry.
\<close>

theorem duplicate_keys_after_load_counterexample:
  "\<not> I4 (run june fromisoformat [Load (Parsed (Some [gpt4_dict, gpt4_later_dict]))])"
  by (simp add: run_def registry_init_def step_def load_from_file_def from_dict_examples
        I4_def key_def gpt4_def gpt4_later_def)

section \<open>Properties of saving\<close>

lemma serialized_empty:
  "serialized clock [] =
     Inr [CHR ''{'', CHR 0x0A, CHR '' '', CHR '' '', CHR 0x22, CHR ''m'', CHR ''o'', CHR ''d'',
      CHR ''e'', CHR ''l'', CHR ''s'', CHR 0x22, CHR '':'', CHR '' '', CHR ''['', CHR '']'',
      CHR 0x0A, CHR ''}'']"
  by (simp add: serialized_def to_dicts_def encode_string_def escape_char_def newline_indent_def
        numeral_2_eq_2)

text \<open>
  Claim C3, as amended. A save that returns without an exception leaves the destination
  with exactly the new serialised text. A save that raises leaves the destination
  either with its prior content (the failure came before the file was opened) or with
  a prefix of the new text, possibly empty, the prior content being lost when the file
  was opened. In every case the other files are untouched.
\<close>

theorem save_writes_in_place:
  "(serialized clock r = Inr text \<longrightarrow>
      save_to_file NoFault clock fs filepath r = (None, fs(filepath \<mapsto> text))) \<and>
   (save_to_file flt clock fs filepath r = (err, fs') \<longrightarrow>
      (\<forall>q. q \<noteq> filepath \<longrightarrow> fs' q = fs q) \<and>
      (err = None \<longrightarrow>
         (\<exists>new. serialized clock r = Inr new \<and> fs' filepath = Some new)) \<and>
      (err \<noteq> None \<longrightarrow>
         fs' filepath = fs filepath \<or>
         (\<exists>k new. serialized clock r = Inr new \<and> fs' filepath = Some (take k new))))"
  by (cases flt; cases "serialized clock r") (auto simp: save_to_file_def)

theorem save_writes_in_place_witness:
  "serialized (fixed_clock june) [] =
     Inr [CHR ''{'', CHR 0x0A, CHR '' '', CHR '' '', CHR 0x22, CHR ''m'', CHR ''o'', CHR ''d'',
      CHR ''e'', CHR ''l'', CHR ''s'', CHR 0x22, CHR '':'', CHR '' '', CHR ''['', CHR '']'',
      CHR 0x0A, CHR ''}''] \<and>
   save_to_file NoFault (fixed_clock june) (no_files(''model_registry.json'' \<mapsto> ''{}''))
     ''model_registry.json'' [] =
     (None, (no_files(''model_registry.json'' \<mapsto> ''{}''))(''model_registry.json'' \<mapsto>
       [CHR ''{'', CHR 0x0A, CHR '' '', CHR '' '', CHR 0x22, CHR ''m'', CHR ''o'', CHR ''d'',
        CHR ''e'', CHR ''l'', CHR ''s'', CHR 0x22, CHR '':'', CHR '' '', CHR ''['', CHR '']'',
        CHR 0x0A, CHR ''}''])) \<and>
   save_to_file (WriteFails 3) (fixed_clock june) (no_files(''model_registry.json'' \<mapsto> ''{}''))
     ''model_registry.json'' [] =
     (Some OSError, no_files(''model_registry.json'' \<mapsto> [CHR ''{'', CHR 0x0A, CHR '' ''])) \<and>
   ''other.json'' \<noteq> ''model_registry.json'' \<and>
   (no_files(''model_registry.json'' \<mapsto> [CHR ''{'', CHR 0x0A, CHR '' ''])) ''other.json'' =
     (no_files(''model_registry.json'' \<mapsto> ''{}'')) ''other.json'' \<and>
   ((no_files(''model_registry.json'' \<mapsto> [CHR ''{'', CHR 0x0A, CHR '' '']))
      ''model_registry.json'' = (no_files(''model_registry.json'' \<mapsto> ''{}'')) ''model_registry.json'' \<or>
    (\<exists>k new. serialized (fixed_clock june) [] = Inr new \<and>
       (no_files(''model_registry.json'' \<mapsto> [CHR ''{'', CHR 0x0A, CHR '' '']))
         ''model_registry.json'' = Some (take k new)))"
proof -
  note s = serialized_empty [of "fixed_clock june"]
  have ko: "save_to_file (WriteFails 3) (fixed_clock june)
     (no_files(''model_registry.json'' \<mapsto> ''{}'')) ''model_registry.json'' [] =
     (Some OSError, no_files(''model_registry.json'' \<mapsto> [CHR ''{'', CHR 0x0A, CHR '' '']))"
    by (simp add: save_to_file_def s)
  have d: "''other.json'' \<noteq> ''model_registry.json''"
    by simp
  note ok = save_writes_in_place
    [of "fixed_clock june" "[]" _ "no_files(''model_registry.json'' \<mapsto> ''{}'')"
        "''model_registry.json''", THEN conjunct1, THEN mp, OF s]
  note th2 = save_writes_in_place
    [of "fixed_clock june" "[]" _ "no_files(''model_registry.json'' \<mapsto> ''{}'')"
        "''model_registry.json''" "WriteFails 3" "Some OSError"
        "no_files(''model_registry.json'' \<mapsto> [CHR ''{'', CHR 0x0A, CHR '' ''])",
     THEN conjunct2, THEN mp, OF ko]
  note a1 = th2 [THEN conjunct1, THEN spec, of "''other.json''", THEN mp, OF d]
  have e: "Some OSError \<noteq> None" by simp
  note b = th2 [THEN conjunct2, THEN conjunct2, THEN mp, OF e]
  show ?thesis by (intro conjI s ok ko d a1 b)
qed

text \<open>
  Claim C3 as stated fails: when the write fails after three characters, the
  destination, which held \<^verbatim>\<open>{}\<close>, holds the first three characters of the new text,
  neither its prior content nor the new content.
\<close>

theorem save_not_atomic_counterexample:
  "snd (save_to_file (WriteFails 3) (fixed_clock june) (no_files(''model_registry.json'' \<mapsto> ''{}''))
          ''model_registry.json'' []) ''model_registry.json'' = Some [CHR ''{'', CHR 0x0A, CHR '' ''] \<and>
   [CHR ''{'', CHR 0x0A, CHR '' ''] \<noteq> ''{}'' \<and>
   Inr [CHR ''{'', CHR 0x0A, CHR '' ''] \<noteq> serialized (fixed_clock june) []"
  by (simp add: save_to_file_def serialized_empty)

end
